theory Spec2Isabelle
  imports Complex_Main "HOL-Library.Sublist"
begin

section \<open>Python values and exceptions\<close>

text \<open>
  The values that \<open>response.json()\<close> and \<open>json.loads\<close> produce. A Python string is a
  \<open>string\<close>, the list of its characters. \<open>JObj kvs\<close> stands for the dict that maps a
  key \<open>k\<close> to \<open>map_of kvs k\<close>, its keys in the order of the list. \<open>JFloat\<close> carries
  the value of a finite float.
\<close>

datatype json =
    JNull
  | JBool bool
  | JInt int
  | JFloat rat
  | JStr string
  | JArr "json list"
  | JObj "(string \<times> json) list"

text \<open>
  The exceptions of class \<open>Exception\<close> that can occur in \<open>process_query\<close>. The first four
  are raised by the interpreter on the operations below; \<open>Exception s\<close> is an exception
  object \<open>e\<close> with \<open>str(e) = s\<close>, raised by line 192 or by a collaborator (the tool
  session, the HTTP client, \<open>json.loads\<close>).
\<close>

datatype exn =
    KeyError json
  | TypeError
  | AttributeError
  | IndexError
  | Exception string

text \<open>Truth value of an object, as \<open>if x\<close>, \<open>not x\<close> and \<open>filter(None, ...)\<close> test it.\<close>

fun truthy :: "json \<Rightarrow> bool" where
  "truthy JNull = False"
| "truthy (JBool b) = b"
| "truthy (JInt n) = (n \<noteq> 0)"
| "truthy (JFloat r) = (r \<noteq> 0)"
| "truthy (JStr s) = (s \<noteq> [])"
| "truthy (JArr xs) = (xs \<noteq> [])"
| "truthy (JObj kvs) = (kvs \<noteq> [])"

text \<open>\<open>k in v\<close> for a string literal \<open>k\<close>: a key of a dict, an element of a list, a
  substring of a string; a \<open>TypeError\<close> on anything else.\<close>

fun py_contains :: "string \<Rightarrow> json \<Rightarrow> exn + bool" where
  "py_contains k (JObj kvs) = Inr (map_of kvs k \<noteq> None)"
| "py_contains k (JArr xs) = Inr (JStr k \<in> set xs)"
| "py_contains k (JStr s) = Inr (sublist k s)"
| "py_contains k JNull = Inl TypeError"
| "py_contains k (JBool b) = Inl TypeError"
| "py_contains k (JInt n) = Inl TypeError"
| "py_contains k (JFloat r) = Inl TypeError"

text \<open>\<open>v[k]\<close> for a string literal \<open>k\<close>.\<close>

fun py_getitem :: "json \<Rightarrow> string \<Rightarrow> exn + json" where
  "py_getitem (JObj kvs) k = (case map_of kvs k of None \<Rightarrow> Inl (KeyError (JStr k)) | Some v \<Rightarrow> Inr v)"
| "py_getitem JNull k = Inl TypeError"
| "py_getitem (JBool b) k = Inl TypeError"
| "py_getitem (JInt n) k = Inl TypeError"
| "py_getitem (JFloat r) k = Inl TypeError"
| "py_getitem (JStr s) k = Inl TypeError"
| "py_getitem (JArr xs) k = Inl TypeError"

text \<open>\<open>v[0]\<close>. The keys of a dict that came from JSON are strings, so \<open>0\<close> is never one.\<close>

fun py_getitem0 :: "json \<Rightarrow> exn + json" where
  "py_getitem0 (JArr []) = Inl IndexError"
| "py_getitem0 (JArr (x # xs)) = Inr x"
| "py_getitem0 (JStr []) = Inl IndexError"
| "py_getitem0 (JStr (c # cs)) = Inr (JStr [c])"
| "py_getitem0 (JObj kvs) = Inl (KeyError (JInt 0))"
| "py_getitem0 JNull = Inl TypeError"
| "py_getitem0 (JBool b) = Inl TypeError"
| "py_getitem0 (JInt n) = Inl TypeError"
| "py_getitem0 (JFloat r) = Inl TypeError"

text \<open>\<open>v.get(k, d)\<close>: only a dict has the method.\<close>

fun py_get :: "json \<Rightarrow> string \<Rightarrow> json \<Rightarrow> exn + json" where
  "py_get (JObj kvs) k d = Inr (case map_of kvs k of None \<Rightarrow> d | Some v \<Rightarrow> v)"
| "py_get JNull k d = Inl AttributeError"
| "py_get (JBool b) k d = Inl AttributeError"
| "py_get (JInt n) k d = Inl AttributeError"
| "py_get (JFloat r) k d = Inl AttributeError"
| "py_get (JStr s) k d = Inl AttributeError"
| "py_get (JArr xs) k d = Inl AttributeError"

text \<open>The items that \<open>for x in v\<close> visits.\<close>

fun py_iter :: "json \<Rightarrow> exn + json list" where
  "py_iter (JArr xs) = Inr xs"
| "py_iter (JObj kvs) = Inr (map (\<lambda>kv. JStr (fst kv)) kvs)"
| "py_iter (JStr s) = Inr (map (\<lambda>c. JStr [c]) s)"
| "py_iter JNull = Inl TypeError"
| "py_iter (JBool b) = Inl TypeError"
| "py_iter (JInt n) = Inl TypeError"
| "py_iter (JFloat r) = Inl TypeError"

text \<open>\<open>sep.join(xs)\<close>: every item must be a string.\<close>

fun str_join :: "string \<Rightarrow> json list \<Rightarrow> exn + string" where
  "str_join sep [] = Inr []"
| "str_join sep [x] = (case x of JStr s \<Rightarrow> Inr s | _ \<Rightarrow> Inl TypeError)"
| "str_join sep (x # y # ys) =
     (case x of
        JStr s \<Rightarrow> (case str_join sep (y # ys) of Inl e \<Rightarrow> Inl e | Inr r \<Rightarrow> Inr (s @ sep @ r))
      | _ \<Rightarrow> Inl TypeError)"

section \<open>Messages, requests and collaborators\<close>

text \<open>
  What a message's \<open>content\<close> holds: \<open>None\<close>, a string (the query, or an error text), or
  the \<open>content\<close> attribute of a tool result, an object of the tool session's library.
\<close>

datatype 'c pyobj = PyNone | PyStr string | PyContent 'c

record 'c message =
  role :: string
  content :: "'c pyobj"
  tool_calls :: "json list option"
  tool_call_id :: "json option"

text \<open>A tool as \<open>list_tools\<close> reports it, and the entry of \<open>available_tools\<close> built from it.\<close>

record tool =
  name :: string
  description :: "string option"
  inputSchema :: json

record function_entry =
  fn_name :: string
  fn_description :: "string option"
  fn_parameters :: json

record tool_entry =
  entry_type :: string
  entry_function :: function_entry

record 'c request =
  model :: string
  req_messages :: "'c message list"
  tools :: "tool_entry list"
  max_tokens :: "int option"

record response =
  status_code :: int
  resp_text :: string
  resp_json :: "exn + json"

text \<open>
  The calls the method makes on its collaborators, in the order it makes them. A
  collaborator answers as a function of the calls made before and of the request, and
  either raises or returns. \<open>list_tools\<close> returns the \<open>tools\<close> attribute of the session's
  response, and \<open>call_tool\<close> the \<open>content\<close> attribute of the session's result.
\<close>

datatype 'c event = ListTools | CallTool json json | Post "'c request"

record 'c ClientSession =
  list_tools :: "'c event list \<Rightarrow> exn + tool list"
  call_tool :: "'c event list \<Rightarrow> json \<Rightarrow> json \<Rightarrow> exn + 'c"

record 'c AsyncClient =
  post :: "'c event list \<Rightarrow> 'c request \<Rightarrow> exn + response"

record 'c MCPClient =
  session :: "'c ClientSession option"
  http_client :: "'c AsyncClient"

text \<open>
  What the method takes from the Python runtime and its libraries: \<open>json.loads\<close>; the
  printed form of a float, of a character beyond ASCII inside a quoted string, and of a
  tool result's content; the exception, if any, that line 162 raises on a content, where
  it slices the content (\<open>tool_result[:100]\<close>), formats the slice and prints it; and
  \<open>str(e)\<close> of an exception the interpreter raised.
\<close>

record 'c runtime =
  json_loads :: "string \<Rightarrow> exn + json"
  repr_float :: "rat \<Rightarrow> string"
  repr_non_ascii :: "char \<Rightarrow> string"
  repr_content :: "'c \<Rightarrow> string"
  preview_error :: "'c \<Rightarrow> exn option"
  error_text :: "exn \<Rightarrow> string"

text \<open>
  \<open>repr\<close> of the values above, which is also their \<open>str\<close> unless they are strings: an
  integer in decimal, a string between quotes (double quotes when it holds a single quote
  and no double quote) with backslashes, the quote and control characters escaped, a
  list and a dict with their items separated by a comma and a space.
\<close>

definition digit_char :: "nat \<Rightarrow> char" where
  "digit_char k = ''0123456789abcdef'' ! (k mod 16)"

function decimal :: "nat \<Rightarrow> string" where
  "decimal n = (if n < 10 then [digit_char n] else decimal (n div 10) @ [digit_char (n mod 10)])"
  by pat_completeness auto
termination
  by (relation "measure (\<lambda>n. n)") auto

declare decimal.simps [simp del]

definition repr_int :: "int \<Rightarrow> string" where
  "repr_int i = (if i < 0 then CHR ''-'' # decimal (nat (- i)) else decimal (nat i))"

definition repr_char :: "'c runtime \<Rightarrow> char \<Rightarrow> char \<Rightarrow> string" where
  "repr_char R quote c =
     (if c = quote \<or> c = CHR 0x5C then [CHR 0x5C, c]
      else if c = CHR 0x09 then [CHR 0x5C, CHR ''t'']
      else if c = CHR 0x0A then [CHR 0x5C, CHR ''n'']
      else if c = CHR 0x0D then [CHR 0x5C, CHR ''r'']
      else if (of_char c :: nat) < 32 \<or> (of_char c :: nat) = 127
        then [CHR 0x5C, CHR ''x'', digit_char (of_char c div 16), digit_char (of_char c mod 16)]
      else if (of_char c :: nat) < 127 then [c]
      else repr_non_ascii R c)"

definition repr_str :: "'c runtime \<Rightarrow> string \<Rightarrow> string" where
  "repr_str R s =
     (let quote = (if CHR 0x27 \<in> set s \<and> CHR 0x22 \<notin> set s then CHR 0x22 else CHR 0x27)
      in quote # concat (map (repr_char R quote) s) @ [quote])"

fun comma_join :: "string list \<Rightarrow> string" where
  "comma_join [] = []"
| "comma_join [x] = x"
| "comma_join (x # y # ys) = x @ '', '' @ comma_join (y # ys)"

function py_repr :: "'c runtime \<Rightarrow> json \<Rightarrow> string" where
  "py_repr R JNull = ''None''"
| "py_repr R (JBool b) = (if b then ''True'' else ''False'')"
| "py_repr R (JInt i) = repr_int i"
| "py_repr R (JFloat r) = repr_float R r"
| "py_repr R (JStr s) = repr_str R s"
| "py_repr R (JArr xs) = ''['' @ comma_join (map (py_repr R) xs) @ '']''"
| "py_repr R (JObj kvs) =
     ''{'' @ comma_join (map (\<lambda>kv. repr_str R (fst kv) @ '': '' @ py_repr R (snd kv)) kvs) @ ''}''"
  by pat_completeness auto
termination
proof (relation "measure (\<lambda>(R, v). size v)")
  show "wf (measure (\<lambda>(R, v). size v))" by simp
next
  fix R :: "'c runtime" and xs :: "json list" and x
  assume "x \<in> set xs"
  then have "size x < Suc (size_list size xs)"
    by (induction xs) auto
  then show "((R, x), (R, JArr xs)) \<in> measure (\<lambda>(R, v). size v)" by simp
next
  fix R :: "'c runtime" and kvs :: "(string \<times> json) list" and kv
  assume "kv \<in> set kvs"
  then show "((R, snd kv), (R, JObj kvs)) \<in> measure (\<lambda>(R, v). size v)"
    by (induction kvs) auto
qed

text \<open>\<open>str(v)\<close>, as an f-string formats a value.\<close>

fun py_str :: "'c runtime \<Rightarrow> json \<Rightarrow> string" where
  "py_str R (JStr s) = s"
| "py_str R v = py_repr R v"

fun str_obj :: "'c runtime \<Rightarrow> 'c pyobj \<Rightarrow> string" where
  "str_obj R (PyStr s) = s"
| "str_obj R (PyContent c) = repr_content R c"
| "str_obj R PyNone = ''None''"

text \<open>\<open>str(e)\<close>: of a \<open>KeyError\<close>, the \<open>repr\<close> of the key.\<close>

fun str_exn :: "'c runtime \<Rightarrow> exn \<Rightarrow> string" where
  "str_exn R (Exception s) = s"
| "str_exn R (KeyError k) = py_repr R k"
| "str_exn R e = error_text R e"

section \<open>The method \<open>process_query\<close>\<close>

text \<open>
  This section gives the method for the runs in which no \<open>await\<close> is interrupted and
  the \<open>print\<close> calls succeed, so that they are left out, apart from line 162, which
  works on the content of a tool result. A later section adds the interruptions and the
  failures of \<open>print\<close>.
\<close>

text \<open>The local variables that change: \<open>messages\<close>, \<open>final_text\<close>, and the calls made.\<close>

record 'c state =
  messages :: "'c message list"
  final_text :: "json list"
  trace :: "'c event list"

record 'c outcome =
  answer :: string
  history :: "'c message list"
  events :: "'c event list"

definition user_message :: "string \<Rightarrow> 'c message" where
  "user_message query =
     \<lparr>role = ''user'', content = PyStr query, tool_calls = None, tool_call_id = None\<rparr>"

definition assistant_call_message :: "json \<Rightarrow> 'c message" where
  "assistant_call_message tool_call =
     \<lparr>role = ''assistant'', content = PyNone, tool_calls = Some [tool_call], tool_call_id = None\<rparr>"

definition tool_message :: "json \<Rightarrow> 'c pyobj \<Rightarrow> 'c message" where
  "tool_message tool_id tool_result =
     \<lparr>role = ''tool'', content = tool_result, tool_calls = None, tool_call_id = Some tool_id\<rparr>"

text \<open>Lines 106 to 113.\<close>

definition available_tools :: "tool list \<Rightarrow> tool_entry list" where
  "available_tools ts =
     map (\<lambda>t. \<lparr>entry_type = ''function'',
               entry_function = \<lparr>fn_name = name t, fn_description = description t,
                                 fn_parameters = inputSchema t\<rparr>\<rparr>) ts"

text \<open>Lines 119 to 124 and 185 to 189.\<close>

definition initial_request :: "'c message list \<Rightarrow> tool_entry list \<Rightarrow> 'c request" where
  "initial_request ms ts =
     \<lparr>model = ''openai/gpt-3.5-turbo-1106'', req_messages = ms, tools = ts,
      max_tokens = Some 1024\<rparr>"

definition followup_request :: "'c message list \<Rightarrow> tool_entry list \<Rightarrow> 'c request" where
  "followup_request ms ts =
     \<lparr>model = ''anthropic/claude-3-sonnet'', req_messages = ms, tools = ts,
      max_tokens = None\<rparr>"

text \<open>Lines 153 to 155: the three fields read from a tool call, outside the inner \<open>try\<close>.\<close>

definition tool_call_fields :: "json \<Rightarrow> exn + (json \<times> json \<times> json)" where
  "tool_call_fields tool_call =
     (case py_getitem tool_call ''function'' of
        Inl e \<Rightarrow> Inl e
      | Inr f \<Rightarrow>
          (case py_getitem f ''name'' of
             Inl e \<Rightarrow> Inl e
           | Inr tool_name \<Rightarrow>
               (case py_getitem f ''arguments'' of
                  Inl e \<Rightarrow> Inl e
                | Inr tool_args \<Rightarrow>
                    (case py_getitem tool_call ''id'' of
                       Inl e \<Rightarrow> Inl e
                     | Inr tool_id \<Rightarrow> Inr (tool_name, tool_args, tool_id)))))"

text \<open>Line 159: \<open>json.loads(tool_args) if isinstance(tool_args, str) else tool_args\<close>.\<close>

definition parse_args :: "'c runtime \<Rightarrow> json \<Rightarrow> exn + json" where
  "parse_args R tool_args = (case tool_args of JStr s \<Rightarrow> json_loads R s | _ \<Rightarrow> Inr tool_args)"

definition error_executing :: "'c runtime \<Rightarrow> json \<Rightarrow> exn \<Rightarrow> string" where
  "error_executing R tool_name e =
     ''Error executing tool '' @ py_str R tool_name @ '': '' @ str_exn R e"

text \<open>
  Lines 158 to 166: the inner \<open>try\<close>. It yields \<open>tool_result\<close> and the calls made so far.
  When line 162 raises on the content of a result, the handler replaces the result with
  the error text as it does for a failed invocation.
\<close>

definition invoke_tool ::
  "'c runtime \<Rightarrow> 'c ClientSession \<Rightarrow> 'c event list \<Rightarrow> json \<Rightarrow> json \<Rightarrow> 'c pyobj \<times> 'c event list" where
  "invoke_tool R sess tr tool_name tool_args =
     (case parse_args R tool_args of
        Inl e \<Rightarrow> (PyStr (error_executing R tool_name e), tr)
      | Inr parsed_args \<Rightarrow>
          (case call_tool sess tr tool_name parsed_args of
             Inl e \<Rightarrow> (PyStr (error_executing R tool_name e), tr @ [CallTool tool_name parsed_args])
           | Inr c \<Rightarrow>
               (case preview_error R c of
                  Some e \<Rightarrow>
                    (PyStr (error_executing R tool_name e), tr @ [CallTool tool_name parsed_args])
                | None \<Rightarrow> (PyContent c, tr @ [CallTool tool_name parsed_args]))))"

text \<open>Line 168.\<close>

definition tool_fragment :: "'c runtime \<Rightarrow> json \<Rightarrow> 'c pyobj \<Rightarrow> string" where
  "tool_fragment R tool_name tool_result =
     ''[Tool '' @ py_str R tool_name @ '' result: '' @ str_obj R tool_result @ '']''"

text \<open>Lines 153 to 181: one tool call up to the two messages appended to \<open>messages\<close>.\<close>

definition run_tool_call ::
  "'c runtime \<Rightarrow> 'c ClientSession \<Rightarrow> json \<Rightarrow> 'c state \<Rightarrow> (exn \<times> 'c state) + 'c state" where
  "run_tool_call R sess tool_call st =
     (case tool_call_fields tool_call of
        Inl e \<Rightarrow> Inl (e, st)
      | Inr (tool_name, tool_args, tool_id) \<Rightarrow>
          (case invoke_tool R sess (trace st) tool_name tool_args of
             (tool_result, tr) \<Rightarrow>
               Inr \<lparr>messages = messages st @
                                [assistant_call_message tool_call, tool_message tool_id tool_result],
                    final_text = final_text st @ [JStr (tool_fragment R tool_name tool_result)],
                    trace = tr\<rparr>))"

text \<open>Lines 191 to 198: what a follow-up response adds to \<open>final_text\<close>, if anything.\<close>

definition follow_up_content :: "response \<Rightarrow> exn + json option" where
  "follow_up_content resp =
     (if status_code resp \<noteq> 200 then Inl (Exception (''API error: '' @ resp_text resp))
      else
        (case resp_json resp of
           Inl e \<Rightarrow> Inl e
         | Inr response_data \<Rightarrow>
             (case py_contains ''choices'' response_data of
                Inl e \<Rightarrow> Inl e
              | Inr False \<Rightarrow> Inr None
              | Inr True \<Rightarrow>
                  (case py_getitem response_data ''choices'' of
                     Inl e \<Rightarrow> Inl e
                   | Inr choices \<Rightarrow>
                       if \<not> truthy choices then Inr None
                       else
                         (case py_getitem0 choices of
                            Inl e \<Rightarrow> Inl e
                          | Inr choice \<Rightarrow>
                              (case py_get choice ''message'' (JObj []) of
                                 Inl e \<Rightarrow> Inl e
                               | Inr next_message \<Rightarrow>
                                   (case py_get next_message ''content'' JNull of
                                      Inl e \<Rightarrow> Inl e
                                    | Inr c \<Rightarrow> Inr (if truthy c then Some c else None))))))))"

text \<open>Lines 184 to 202: the follow-up request, with its own \<open>try\<close>; nothing escapes it.\<close>

definition follow_up ::
  "'c runtime \<Rightarrow> 'c AsyncClient \<Rightarrow> tool_entry list \<Rightarrow> 'c state \<Rightarrow> 'c state" where
  "follow_up R http ts st =
     (let req = followup_request (messages st) ts;
          st' = st\<lparr>trace := trace st @ [Post req]\<rparr>
      in case post http (trace st) req of
           Inl e \<Rightarrow>
             st'\<lparr>final_text := final_text st @ [JStr (''Error in follow-up request: '' @ str_exn R e)]\<rparr>
         | Inr resp \<Rightarrow>
             (case follow_up_content resp of
                Inl e \<Rightarrow>
                  st'\<lparr>final_text :=
                        final_text st @ [JStr (''Error in follow-up request: '' @ str_exn R e)]\<rparr>
              | Inr None \<Rightarrow> st'
              | Inr (Some c) \<Rightarrow> st'\<lparr>final_text := final_text st @ [c]\<rparr>))"

text \<open>Lines 152 to 202: the body of the loop, and the loop.\<close>

definition process_tool_call ::
  "'c runtime \<Rightarrow> 'c ClientSession \<Rightarrow> 'c AsyncClient \<Rightarrow> tool_entry list \<Rightarrow> json \<Rightarrow> 'c state
     \<Rightarrow> (exn \<times> 'c state) + 'c state" where
  "process_tool_call R sess http ts tool_call st =
     (case run_tool_call R sess tool_call st of
        Inl x \<Rightarrow> Inl x
      | Inr st1 \<Rightarrow> Inr (follow_up R http ts st1))"

fun process_tool_calls ::
  "'c runtime \<Rightarrow> 'c ClientSession \<Rightarrow> 'c AsyncClient \<Rightarrow> tool_entry list \<Rightarrow> json list \<Rightarrow> 'c state
     \<Rightarrow> (exn \<times> 'c state) + 'c state" where
  "process_tool_calls R sess http ts [] st = Inr st"
| "process_tool_calls R sess http ts (tool_call # rest) st =
     (case process_tool_call R sess http ts tool_call st of
        Inl x \<Rightarrow> Inl x
      | Inr st' \<Rightarrow> process_tool_calls R sess http ts rest st')"

text \<open>Line 204: \<open>"\n".join(filter(None, final_text))\<close>.\<close>

definition join_fragments :: "json list \<Rightarrow> exn + string" where
  "join_fragments fragments = str_join [CHR 0x0A] (filter truthy fragments)"

text \<open>
  Lines 136 to 146: the checks on the first response's body, up to the assistant message.
  \<open>Inr (Inl s)\<close> is \<open>return s\<close>.
\<close>

definition first_message :: "'c runtime \<Rightarrow> json \<Rightarrow> exn + (string + json)" where
  "first_message R response_data =
     (case py_contains ''error'' response_data of
        Inl e \<Rightarrow> Inl e
      | Inr True \<Rightarrow>
          (case py_getitem response_data ''error'' of
             Inl e \<Rightarrow> Inl e
           | Inr err \<Rightarrow> Inr (Inl (''Error from OpenRouter: '' @ py_str R err)))
      | Inr False \<Rightarrow>
          (case py_contains ''choices'' response_data of
             Inl e \<Rightarrow> Inl e
           | Inr False \<Rightarrow> Inr (Inl ''Invalid response received from API'')
           | Inr True \<Rightarrow>
               (case py_getitem response_data ''choices'' of
                  Inl e \<Rightarrow> Inl e
                | Inr choices \<Rightarrow>
                    if \<not> truthy choices then Inr (Inl ''Invalid response received from API'')
                    else
                      (case py_getitem0 choices of
                         Inl e \<Rightarrow> Inl e
                       | Inr choice \<Rightarrow>
                           (case py_get choice ''message'' (JObj []) of
                              Inl e \<Rightarrow> Inl e
                            | Inr assistant_message \<Rightarrow> Inr (Inr assistant_message))))))"

text \<open>Lines 148 to 204: from the assistant message to the returned text.\<close>

definition handle_message ::
  "'c runtime \<Rightarrow> 'c ClientSession \<Rightarrow> 'c AsyncClient \<Rightarrow> tool_entry list \<Rightarrow> json \<Rightarrow> 'c state
     \<Rightarrow> (exn \<times> 'c state) + (string \<times> 'c state)" where
  "handle_message R sess http ts assistant_message st =
     (case py_get assistant_message ''content'' JNull of
        Inl e \<Rightarrow> Inl (e, st)
      | Inr c \<Rightarrow>
          (let st1 = (if truthy c then st\<lparr>final_text := final_text st @ [c]\<rparr> else st)
           in case py_contains ''tool_calls'' assistant_message of
                Inl e \<Rightarrow> Inl (e, st1)
              | Inr has_calls \<Rightarrow>
                  (case (if has_calls
                         then (case py_getitem assistant_message ''tool_calls'' of
                                 Inl e \<Rightarrow> Inl (e, st1)
                               | Inr v \<Rightarrow>
                                   (case py_iter v of
                                      Inl e \<Rightarrow> Inl (e, st1)
                                    | Inr tcs \<Rightarrow> process_tool_calls R sess http ts tcs st1))
                         else Inr st1) of
                     Inl x \<Rightarrow> Inl x
                   | Inr st2 \<Rightarrow>
                       (case join_fragments (final_text st2) of
                          Inl e \<Rightarrow> Inl (e, st2)
                        | Inr s \<Rightarrow> Inr (s, st2)))))"

text \<open>Lines 105 to 204: the body of the outer \<open>try\<close>.\<close>

definition try_body ::
  "'c runtime \<Rightarrow> 'c ClientSession \<Rightarrow> 'c AsyncClient \<Rightarrow> string
     \<Rightarrow> (exn \<times> 'c state) + (string \<times> 'c state)" where
  "try_body R sess http query =
     (let st0 = \<lparr>messages = [user_message query], final_text = [], trace = [ListTools]\<rparr>
      in case list_tools sess [] of
           Inl e \<Rightarrow> Inl (e, st0)
         | Inr listed \<Rightarrow>
             (let ts = available_tools listed;
                  req = initial_request (messages st0) ts;
                  st1 = st0\<lparr>trace := [ListTools, Post req]\<rparr>
              in case post http [ListTools] req of
                   Inl e \<Rightarrow> Inl (e, st1)
                 | Inr resp \<Rightarrow>
                     if status_code resp \<noteq> 200
                     then Inr (''Error from OpenRouter API: '' @ resp_text resp, st1)
                     else
                       (case resp_json resp of
                          Inl e \<Rightarrow> Inl (e, st1)
                        | Inr response_data \<Rightarrow>
                            (case first_message R response_data of
                               Inl e \<Rightarrow> Inl (e, st1)
                             | Inr (Inl s) \<Rightarrow> Inr (s, st1)
                             | Inr (Inr assistant_message) \<Rightarrow>
                                 handle_message R sess http ts assistant_message st1))))"

text \<open>Lines 92 to 210.\<close>

definition process_query :: "'c runtime \<Rightarrow> 'c MCPClient \<Rightarrow> string \<Rightarrow> 'c outcome" where
  "process_query R client query =
     (case session client of
        None \<Rightarrow> \<lparr>answer = ''ERROR: Not connected to server'', history = [], events = []\<rparr>
      | Some sess \<Rightarrow>
          (case try_body R sess (http_client client) query of
             Inl (e, st) \<Rightarrow>
               \<lparr>answer = ''Error processing query: '' @ str_exn R e,
                history = messages st, events = trace st\<rparr>
           | Inr (s, st) \<Rightarrow> \<lparr>answer = s, history = messages st, events = trace st\<rparr>))"

section \<open>The method under cancellation and a failing console\<close>

text \<open>
  The definitions above give \<open>process_query\<close> for the runs in which no \<open>await\<close> is
  interrupted and every \<open>print\<close> succeeds. Here both can fail. An \<open>await\<close> can be
  interrupted by an exception that is not of class \<open>Exception\<close> (the cancellation of the
  task, \<open>asyncio.CancelledError\<close>): no handler of the method catches it. A \<open>print\<close> can
  raise an exception of class \<open>Exception\<close>: inside the outer \<open>try\<close> it is handled like
  any other, inside an inner handler it reaches the outer one, and inside the outer
  handler (lines 208 and 209) nothing catches it. \<open>interrupt\<close> tells, from the calls made
  up to and including the awaited one, the class of the exception that interrupts the
  \<open>await\<close>; \<open>console\<close> tells, from the line of a \<open>print\<close> and the calls made so far, the
  exception it raises.
\<close>












section \<open>Vocabulary of the properties\<close>

text \<open>
  The response to the initial Model Endpoint call, when there is a session, \<open>list_tools\<close>
  returned and the call returned a response.
\<close>

definition initial_response :: "'c MCPClient \<Rightarrow> string \<Rightarrow> response option" where
  "initial_response client query =
     (case session client of
        None \<Rightarrow> None
      | Some sess \<Rightarrow>
          (case list_tools sess [] of
             Inl e \<Rightarrow> None
           | Inr listed \<Rightarrow>
               (case post (http_client client) [ListTools]
                       (initial_request [user_message query] (available_tools listed)) of
                  Inl e \<Rightarrow> None
                | Inr resp \<Rightarrow> Some resp)))"

fun is_call :: "'c event \<Rightarrow> bool" where
  "is_call (CallTool n a) = True"
| "is_call ListTools = False"
| "is_call (Post r) = False"

fun is_post :: "'c event \<Rightarrow> bool" where
  "is_post (Post r) = True"
| "is_post ListTools = False"
| "is_post (CallTool n a) = False"

fun is_str :: "json \<Rightarrow> bool" where
  "is_str (JStr s) = True"
| "is_str JNull = False"
| "is_str (JBool b) = False"
| "is_str (JInt n) = False"
| "is_str (JFloat r) = False"
| "is_str (JArr xs) = False"
| "is_str (JObj kvs) = False"

text \<open>
  The Tool Session invocation that a tool call asks for: none when the call lacks a field
  or its textual arguments do not decode.
\<close>

definition requested_call :: "'c runtime \<Rightarrow> json \<Rightarrow> 'c event list" where
  "requested_call R tool_call =
     (case tool_call_fields tool_call of
        Inl e \<Rightarrow> []
      | Inr (tool_name, tool_args, tool_id) \<Rightarrow>
          (case parse_args R tool_args of
             Inl e \<Rightarrow> []
           | Inr parsed_args \<Rightarrow> [CallTool tool_name parsed_args]))"

text \<open>
  The linkage of tool messages: a message \<open>m\<close> answers a call of the message \<open>p\<close> before it
  when \<open>p\<close> is an assistant message and \<open>m\<close>'s \<open>tool_call_id\<close> is the \<open>id\<close> of one of \<open>p\<close>'s
  \<open>tool_calls\<close>; a history is linked when each of its tool messages answers a call of the
  message right before it.
\<close>

definition answers :: "'c message \<Rightarrow> 'c message \<Rightarrow> bool" where
  "answers p m =
     (role p = ''assistant'' \<and>
      (case tool_calls p of
         None \<Rightarrow> False
       | Some tcs \<Rightarrow>
           (case tool_call_id m of
              None \<Rightarrow> False
            | Some tid \<Rightarrow> Inr tid \<in> set (map (\<lambda>tc. py_getitem tc ''id'') tcs))))"

fun linked :: "'c message option \<Rightarrow> 'c message list \<Rightarrow> bool" where
  "linked prev [] = True"
| "linked prev (m # ms) =
     ((if role m = ''tool'' then (case prev of None \<Rightarrow> False | Some p \<Rightarrow> answers p m) else True)
      \<and> linked (Some m) ms)"

section \<open>Example runs\<close>

text \<open>
  A runtime for the examples: \<open>json.loads\<close> on the two texts the examples decode, and
  placeholders for the printed forms the examples do not depend on. A tool result's
  content is represented by its printed form; the content \<open>None\<close> cannot be sliced.
\<close>

definition demo_runtime :: "string runtime" where
  "demo_runtime =
     \<lparr>json_loads = (\<lambda>s. if s = ''{\"x\":1}'' then Inr (JObj [(''x'', JInt 1)])
                         else Inl (Exception ''Expecting value: line 1 column 1 (char 0)'')),
      repr_float = (\<lambda>r. ''<float>''),
      repr_non_ascii = (\<lambda>c. [c]),
      repr_content = (\<lambda>c. c),
      preview_error = (\<lambda>c. if c = ''None'' then Some TypeError else None),
      error_text = (\<lambda>e. ''<message>'')\<rparr>"

text \<open>A session with two tools, the second without content; an invocation of any other
  name fails.\<close>

definition demo_session :: "string ClientSession" where
  "demo_session =
     \<lparr>list_tools = (\<lambda>tr. Inr [\<lparr>name = ''add'', description = Some ''Add numbers'',
                                 inputSchema = JObj []\<rparr>]),
      call_tool = (\<lambda>tr n a. if n = JStr ''add'' then Inr ''4''
                             else if n = JStr ''noop'' then Inr ''None''
                             else Inl (Exception ''Unknown tool''))\<rparr>"

text \<open>A client whose endpoint answers the initial call with \<open>first\<close> and every follow-up
  call with \<open>next\<close>.\<close>

definition demo_client :: "exn + response \<Rightarrow> exn + response \<Rightarrow> string MCPClient" where
  "demo_client first next =
     \<lparr>session = Some demo_session,
      http_client = \<lparr>post = (\<lambda>tr req. if tr = [ListTools] then first else next)\<rparr>\<rparr>"

definition done_response :: response where
  "done_response =
     \<lparr>status_code = 200,
      resp_text = ''{\"choices\":[{\"message\":{\"content\":\"done\"}}]}'',
      resp_json = Inr (JObj [(''choices'',
                    JArr [JObj [(''message'', JObj [(''content'', JStr ''done'')])]])])\<rparr>"

text \<open>A plain answer, and the same answer beside a top-level \<open>error\<close> field.\<close>

definition hello_body :: "(string \<times> json) list" where
  "hello_body = [(''choices'', JArr [JObj [(''message'', JObj [(''content'', JStr ''hello'')])]])]"

definition hello_response :: response where
  "hello_response =
     \<lparr>status_code = 200,
      resp_text = ''{\"choices\":[{\"message\":{\"content\":\"hello\"}}]}'',
      resp_json = Inr (JObj hello_body)\<rparr>"

definition both_body :: "(string \<times> json) list" where
  "both_body = (''error'', JStr ''boom'') # hello_body"

definition both_response :: response where
  "both_response =
     \<lparr>status_code = 200,
      resp_text = ''{\"error\":\"boom\",\"choices\":[{\"message\":{\"content\":\"hello\"}}]}'',
      resp_json = Inr (JObj both_body)\<rparr>"

text \<open>A response with status 500 whose body is not JSON.\<close>

definition failed_response :: response where
  "failed_response =
     \<lparr>status_code = 500, resp_text = ''boom'',
      resp_json = Inl (Exception ''Expecting value: line 1 column 1 (char 0)'')\<rparr>"

text \<open>One tool call whose textual arguments do not decode.\<close>

definition bad_call :: json where
  "bad_call =
     JObj [(''id'', JStr ''call_1''),
           (''function'', JObj [(''name'', JStr ''add''), (''arguments'', JStr ''not json'')])]"

definition bad_call_response :: response where
  "bad_call_response =
     \<lparr>status_code = 200,
      resp_text = ''{\"choices\":[{\"message\":{\"tool_calls\":[{\"id\":\"call_1\",\"function\":{\"name\":\"add\",\"arguments\":\"not json\"}}]}}]}'',
      resp_json = Inr (JObj [(''choices'',
                    JArr [JObj [(''message'', JObj [(''tool_calls'', JArr [bad_call])])]])])\<rparr>"

text \<open>
  A batch of three tool calls: textual arguments, a tool the session does not have, and
  structured arguments.
\<close>

definition call_1 :: json where
  "call_1 =
     JObj [(''id'', JStr ''call_1''),
           (''function'', JObj [(''name'', JStr ''add''), (''arguments'', JStr ''{\"x\":1}'')])]"

definition call_2 :: json where
  "call_2 =
     JObj [(''id'', JStr ''call_2''),
           (''function'', JObj [(''name'', JStr ''mul''), (''arguments'', JObj [])])]"

definition call_3 :: json where
  "call_3 =
     JObj [(''id'', JStr ''call_3''),
           (''function'', JObj [(''name'', JStr ''add''), (''arguments'', JObj [(''x'', JInt 2)])])]"

definition batch_message :: "(string \<times> json) list" where
  "batch_message = [(''content'', JStr ''Checking.''), (''tool_calls'', JArr [call_1, call_2, call_3])]"

definition batch_response :: response where
  "batch_response =
     \<lparr>status_code = 200,
      resp_text =
        ''{\"choices\":[{\"message\":{\"content\":\"Checking.\",\"tool_calls\":[''
        @ ''{\"id\":\"call_1\",\"function\":{\"name\":\"add\",\"arguments\":\"{''
        @ [CHR 0x5C] @ ''\"x'' @ [CHR 0x5C] @ ''\":1}\"}},''
        @ ''{\"id\":\"call_2\",\"function\":{\"name\":\"mul\",\"arguments\":{}}},''
        @ ''{\"id\":\"call_3\",\"function\":{\"name\":\"add\",\"arguments\":{\"x\":2}}}]}}]}'',
      resp_json = Inr (JObj [(''choices'', JArr [JObj [(''message'', JObj batch_message)]])])\<rparr>"

text \<open>
  A batch that asks for the same invocation twice, and for the tool whose content cannot
  be sliced.
\<close>

definition call_4 :: json where
  "call_4 =
     JObj [(''id'', JStr ''call_4''),
           (''function'', JObj [(''name'', JStr ''noop''), (''arguments'', JObj [])])]"

definition mixed_message :: "(string \<times> json) list" where
  "mixed_message = [(''tool_calls'', JArr [call_3, call_2, call_3, call_4])]"

definition mixed_response :: response where
  "mixed_response =
     \<lparr>status_code = 200,
      resp_text =
        ''{\"choices\":[{\"message\":{\"tool_calls\":[''
        @ ''{\"id\":\"call_3\",\"function\":{\"name\":\"add\",\"arguments\":{\"x\":2}}},''
        @ ''{\"id\":\"call_2\",\"function\":{\"name\":\"mul\",\"arguments\":{}}},''
        @ ''{\"id\":\"call_3\",\"function\":{\"name\":\"add\",\"arguments\":{\"x\":2}}},''
        @ ''{\"id\":\"call_4\",\"function\":{\"name\":\"noop\",\"arguments\":{}}}]}}]}'',
      resp_json = Inr (JObj [(''choices'', JArr [JObj [(''message'', JObj mixed_message)]])])\<rparr>"

text \<open>
  Responses whose \<open>error\<close> field is an object, the second with a line break in its
  message.
\<close>

definition auth_error :: json where
  "auth_error = JObj [(''code'', JInt 401), (''message'', JStr ''No auth credentials found'')]"

definition auth_error_text :: string where
  "auth_error_text = ''{\"code\":401,\"message\":\"No auth credentials found\"}''"

definition auth_error_response :: response where
  "auth_error_response =
     \<lparr>status_code = 200,
      resp_text = ''{\"error\":'' @ auth_error_text @ ''}'',
      resp_json = Inr (JObj [(''error'', auth_error)])\<rparr>"

definition lines_error :: json where
  "lines_error = JObj [(''message'', JStr (''bad'' @ [CHR 0x0A] @ ''request''))]"

definition lines_error_text :: string where
  "lines_error_text = ''{\"message\":\"bad'' @ [CHR 0x5C] @ ''nrequest\"}''"

definition lines_error_response :: response where
  "lines_error_response =
     \<lparr>status_code = 200,
      resp_text = ''{\"error\":'' @ lines_error_text @ ''}'',
      resp_json = Inr (JObj [(''error'', lines_error)])\<rparr>"

text \<open>Follow-up responses with status 200 and no usable choice.\<close>

definition empty_choices_response :: response where
  "empty_choices_response =
     \<lparr>status_code = 200, resp_text = ''{\"choices\":[]}'',
      resp_json = Inr (JObj [(''choices'', JArr [])])\<rparr>"




section \<open>Auxiliary facts\<close>

subsection \<open>The initial exchange\<close>

lemma initial_responseD:
  assumes "initial_response client query = Some resp"
  obtains sess listed where "session client = Some sess" "list_tools sess [] = Inr listed"
    "post (http_client client) [ListTools]
       (initial_request [user_message query] (available_tools listed)) = Inr resp"
  using assms by (auto simp: initial_response_def split: option.splits sum.splits)

lemma try_body_message:
  assumes "list_tools sess [] = Inr listed"
    and "post http [ListTools] (initial_request [user_message query] (available_tools listed)) = Inr resp"
    and "status_code resp = 200" "resp_json resp = Inr d" "first_message R d = Inr (Inr m)"
  shows "try_body R sess http query =
           handle_message R sess http (available_tools listed) m
             \<lparr>messages = [user_message query], final_text = [],
              trace = [ListTools, Post (initial_request [user_message query] (available_tools listed))]\<rparr>"
  using assms by (simp add: try_body_def Let_def)

lemma try_body_return:
  assumes "list_tools sess [] = Inr listed"
    and "post http [ListTools] (initial_request [user_message query] (available_tools listed)) = Inr resp"
    and "status_code resp = 200" "resp_json resp = Inr d" "first_message R d = Inr (Inl s)"
  shows "try_body R sess http query =
           Inr (s, \<lparr>messages = [user_message query], final_text = [],
              trace = [ListTools, Post (initial_request [user_message query] (available_tools listed))]\<rparr>)"
  using assms by (simp add: try_body_def Let_def)

lemma try_body_raise:
  assumes "list_tools sess [] = Inr listed"
    and "post http [ListTools] (initial_request [user_message query] (available_tools listed)) = Inr resp"
    and "status_code resp = 200" "resp_json resp = Inr d" "first_message R d = Inl e"
  shows "try_body R sess http query =
           Inl (e, \<lparr>messages = [user_message query], final_text = [],
              trace = [ListTools, Post (initial_request [user_message query] (available_tools listed))]\<rparr>)"
  using assms by (simp add: try_body_def Let_def)

lemma first_message_obj:
  assumes "map_of body ''error'' = None"
    and "map_of body ''choices'' = Some (JArr (JObj choice # others))"
    and "map_of choice ''message'' = Some m"
  shows "first_message R (JObj body) = Inr (Inr m)"
  using assms by (simp add: first_message_def)

lemma first_message_error:
  assumes "map_of body ''error'' = Some err"
  shows "first_message R (JObj body) = Inr (Inl (''Error from OpenRouter: '' @ py_str R err))"
  using assms by (simp add: first_message_def)

lemma first_message_invalid:
  assumes "map_of body ''error'' = None"
    and "map_of body ''choices'' = None \<or> (\<exists>v. map_of body ''choices'' = Some v \<and> \<not> truthy v)"
  shows "first_message R (JObj body) = Inr (Inl ''Invalid response received from API'')"
  using assms by (auto simp: first_message_def)

lemma first_message_not_list:
  assumes "map_of body ''error'' = None"
    and "map_of body ''choices'' = Some v" "truthy v" "\<forall>xs. v \<noteq> JArr xs"
  shows "\<exists>e. first_message R (JObj body) = Inl e"
  using assms by (cases v) (auto simp: first_message_def neq_Nil_conv)

subsection \<open>Joining the fragments\<close>

lemma str_join_total:
  assumes "\<forall>x\<in>set xs. is_str x"
  shows "\<exists>out. str_join sep xs = Inr out"
  using assms
proof (induction sep xs rule: str_join.induct)
  case (1 sep)
  then show ?case by simp
next
  case (2 sep x)
  then show ?case by (cases x) simp_all
next
  case (3 sep x y ys)
  then show ?case by (cases x) auto
qed

lemma str_join_sublist:
  assumes "str_join sep xs = Inr out" "JStr f \<in> set xs"
  shows "sublist f out"
  using assms
proof (induction sep xs arbitrary: out rule: str_join.induct)
  case (1 sep)
  then show ?case by simp
next
  case (2 sep x)
  then show ?case by (cases x) auto
next
  case (3 sep x y ys)
  from "3.prems"(1) obtain s r where x: "x = JStr s" and r: "str_join sep (y # ys) = Inr r"
    and out: "out = s @ sep @ r"
    by (cases x) (auto split: sum.splits)
  show ?case
  proof (cases "JStr f = x")
    case True
    then show ?thesis using x out by auto
  next
    case False
    then have "JStr f \<in> set (y # ys)" using "3.prems"(2) by auto
    from "3.IH" [OF x r this] have "sublist f r" .
    then obtain ps ss where "r = ps @ f @ ss" by (auto simp: sublist_def)
    then have "out = (s @ sep @ ps) @ f @ ss" using out by simp
    then show ?thesis unfolding sublist_def by blast
  qed
qed

lemma join_fragments_total:
  assumes "\<forall>x\<in>set xs. is_str x"
  shows "\<exists>out. join_fragments xs = Inr out"
  unfolding join_fragments_def using assms by (intro str_join_total) auto

lemma join_fragments_sublist:
  assumes "join_fragments xs = Inr out" "JStr f \<in> set xs" "f \<noteq> []"
  shows "sublist f out"
  using assms unfolding join_fragments_def by (intro str_join_sublist [where xs = "filter truthy xs"]) auto

lemma tool_fragment_nonempty: "tool_fragment R n r \<noteq> []"
  by (simp add: tool_fragment_def)

subsection \<open>One tool call\<close>

lemma invoke_tool_trace:
  "snd (invoke_tool R sess tr n a) =
     tr @ (case parse_args R a of Inl e \<Rightarrow> [] | Inr p \<Rightarrow> [CallTool n p])"
  by (simp add: invoke_tool_def split: sum.splits option.splits)

lemma invoke_tool_result:
  "fst (invoke_tool R sess tr n a) =
     (case parse_args R a of
        Inl e \<Rightarrow> PyStr (error_executing R n e)
      | Inr p \<Rightarrow> (case call_tool sess tr n p of
                    Inl e \<Rightarrow> PyStr (error_executing R n e)
                  | Inr c \<Rightarrow> (case preview_error R c of
                               Some e \<Rightarrow> PyStr (error_executing R n e)
                             | None \<Rightarrow> PyContent c)))"
  by (simp add: invoke_tool_def split: sum.splits option.splits)

lemma run_tool_call_fields:
  assumes "tool_call_fields tc = Inr (n, a, i)"
  shows "run_tool_call R sess tc st =
           Inr \<lparr>messages = messages st @
                   [assistant_call_message tc, tool_message i (fst (invoke_tool R sess (trace st) n a))],
                final_text = final_text st @
                   [JStr (tool_fragment R n (fst (invoke_tool R sess (trace st) n a)))],
                trace = snd (invoke_tool R sess (trace st) n a)\<rparr>"
  using assms by (simp add: run_tool_call_def split: prod.splits)

lemma follow_up_trace:
  "trace (follow_up R http ts st) = trace st @ [Post (followup_request (messages st) ts)]"
  by (simp add: follow_up_def Let_def split: sum.splits option.splits)

lemma follow_up_messages: "messages (follow_up R http ts st) = messages st"
  by (simp add: follow_up_def Let_def split: sum.splits option.splits)

lemma follow_up_final_text:
  "\<exists>xs. final_text (follow_up R http ts st) = final_text st @ xs"
  by (simp add: follow_up_def Let_def split: sum.splits option.splits)

lemma follow_up_final_text_str:
  assumes "\<forall>tr req r c. post http tr req = Inr r \<longrightarrow> follow_up_content r = Inr (Some c) \<longrightarrow> is_str c"
    and "\<forall>x\<in>set (final_text st). is_str x"
  shows "\<forall>x\<in>set (final_text (follow_up R http ts st)). is_str x"
  using assms by (fastforce simp: follow_up_def Let_def split: sum.splits option.splits)

lemma follow_up_raise:
  assumes "post http (trace st) (followup_request (messages st) ts) = Inl e
     \<or> (\<exists>r. post http (trace st) (followup_request (messages st) ts) = Inr r
            \<and> follow_up_content r = Inl e)"
  shows "follow_up R http ts st =
           st\<lparr>final_text := final_text st @ [JStr (''Error in follow-up request: '' @ str_exn R e)],
              trace := trace st @ [Post (followup_request (messages st) ts)]\<rparr>"
  using assms by (auto simp: follow_up_def Let_def)

lemma follow_up_content_silent:
  assumes "status_code r = 200" "resp_json r = Inr (JObj body)"
    and "map_of body ''choices'' = None \<or> (\<exists>v. map_of body ''choices'' = Some v \<and> \<not> truthy v)"
  shows "follow_up_content r = Inr None"
  using assms by (auto simp: follow_up_content_def)

lemma process_tool_call_fields:
  assumes "tool_call_fields tc = Inr (n, a, i)"
  shows "\<exists>st'. process_tool_call R sess http ts tc st = Inr st'
     \<and> trace st' = snd (invoke_tool R sess (trace st) n a) @ [Post (followup_request (messages st') ts)]
     \<and> messages st' = messages st @
          [assistant_call_message tc, tool_message i (fst (invoke_tool R sess (trace st) n a))]
     \<and> (\<exists>xs. final_text st' = final_text st @
          JStr (tool_fragment R n (fst (invoke_tool R sess (trace st) n a))) # xs)"
proof -
  let ?st1 = "\<lparr>messages = messages st @
                   [assistant_call_message tc, tool_message i (fst (invoke_tool R sess (trace st) n a))],
                final_text = final_text st @
                   [JStr (tool_fragment R n (fst (invoke_tool R sess (trace st) n a)))],
                trace = snd (invoke_tool R sess (trace st) n a)\<rparr>"
  have p: "process_tool_call R sess http ts tc st = Inr (follow_up R http ts ?st1)"
    by (simp add: process_tool_call_def run_tool_call_fields [OF assms])
  obtain xs where "final_text (follow_up R http ts ?st1) = final_text ?st1 @ xs"
    using follow_up_final_text by blast
  then show ?thesis using p by (simp add: follow_up_trace follow_up_messages)
qed

lemma requested_call_trace:
  assumes "tool_call_fields tc = Inr (n, a, i)"
  shows "snd (invoke_tool R sess tr n a) = tr @ requested_call R tc"
  using assms by (simp add: invoke_tool_trace requested_call_def split: sum.splits)

lemma process_tool_calls_events:
  assumes "\<forall>tc\<in>set tcs. \<exists>f. tool_call_fields tc = Inr f"
  shows "\<exists>st' reqs. process_tool_calls R sess http ts tcs st = Inr st'
     \<and> length reqs = length tcs
     \<and> trace st' = trace st
          @ concat (map (\<lambda>(tc, req). requested_call R tc @ [Post req]) (zip tcs reqs))"
  using assms
proof (induction tcs arbitrary: st)
  case Nil
  then show ?case by simp
next
  case (Cons tc tcs)
  then obtain n a i where f: "tool_call_fields tc = Inr (n, a, i)" by fastforce
  from process_tool_call_fields [OF f, of R sess http ts st]
  obtain st1 where p: "process_tool_call R sess http ts tc st = Inr st1"
    and t: "trace st1 = snd (invoke_tool R sess (trace st) n a) @ [Post (followup_request (messages st1) ts)]"
    by blast
  from Cons.IH [of st1] Cons.prems
  obtain st' reqs where l: "process_tool_calls R sess http ts tcs st1 = Inr st'"
    and n: "length reqs = length tcs"
    and c: "trace st' = trace st1
          @ concat (map (\<lambda>(tc, req). requested_call R tc @ [Post req]) (zip tcs reqs))"
    by auto
  let ?reqs = "followup_request (messages st1) ts # reqs"
  have "process_tool_calls R sess http ts (tc # tcs) st = Inr st'" using p l by simp
  moreover have "length ?reqs = length (tc # tcs)" using n by simp
  moreover have "trace st' = trace st
          @ concat (map (\<lambda>(tc, req). requested_call R tc @ [Post req]) (zip (tc # tcs) ?reqs))"
    using c t by (simp add: requested_call_trace [OF f])
  ultimately show ?case by blast
qed

lemma events_calls:
  "filter is_call (concat (map (\<lambda>(tc, req). requested_call R tc @ [Post req]) (zip tcs reqs)))
     = concat (map (requested_call R) (take (length reqs) tcs))"
proof (induction tcs arbitrary: reqs)
  case Nil
  then show ?case by simp
next
  case (Cons tc tcs)
  have c: "filter is_call (requested_call R tc) = requested_call R tc"
    by (simp add: requested_call_def split: sum.splits prod.splits)
  show ?case using Cons.IH c by (cases reqs) simp_all
qed

lemma events_posts:
  "length (filter is_post (concat (map (\<lambda>(tc, req). requested_call R tc @ [Post req]) (zip tcs reqs))))
     = min (length tcs) (length reqs)"
proof (induction tcs arbitrary: reqs)
  case Nil
  then show ?case by simp
next
  case (Cons tc tcs)
  have c: "filter is_post (requested_call R tc) = []"
    by (simp add: requested_call_def split: sum.splits prod.splits)
  show ?case using Cons.IH c by (cases reqs) simp_all
qed

lemma process_tool_calls_runs:
  assumes "\<forall>tc\<in>set tcs. \<exists>f. tool_call_fields tc = Inr f"
    and "\<forall>tr req r c. post http tr req = Inr r \<longrightarrow> follow_up_content r = Inr (Some c) \<longrightarrow> is_str c"
    and "\<forall>x\<in>set (final_text st). is_str x"
  shows "\<exists>st' runs. process_tool_calls R sess http ts tcs st = Inr st'
     \<and> length runs = length tcs
     \<and> trace st' = trace st
          @ concat (map (\<lambda>(tc, n, r, req, more). requested_call R tc @ [Post req]) (zip tcs runs))
     \<and> final_text st' = final_text st
          @ concat (map (\<lambda>(n, r, req, more). JStr (tool_fragment R n r) # more) runs)
     \<and> (\<forall>x\<in>set (final_text st'). is_str x)
     \<and> (\<forall>i<length tcs. \<exists>n a tid r req more.
            tool_call_fields (tcs ! i) = Inr (n, a, tid)
          \<and> runs ! i = (n, r, req, more)
          \<and> r = fst (invoke_tool R sess
                   (trace st @ concat (map (\<lambda>(tc, n, r, req, more). requested_call R tc @ [Post req])
                                        (zip (take i tcs) (take i runs)))) n a))"
  using assms
proof (induction tcs arbitrary: st)
  case Nil
  then show ?case by simp
next
  case (Cons tc tcs)
  let ?ev = "\<lambda>(tc, n, r, req, more). requested_call R tc @ [Post req]"
  let ?fr = "\<lambda>(n, r, req, more). JStr (tool_fragment R n r) # more"
  from Cons.prems(1) obtain n a tid where f: "tool_call_fields tc = Inr (n, a, tid)" by fastforce
  let ?r = "fst (invoke_tool R sess (trace st) n a)"
  let ?st1 = "\<lparr>messages = messages st @ [assistant_call_message tc, tool_message tid ?r],
               final_text = final_text st @ [JStr (tool_fragment R n ?r)],
               trace = snd (invoke_tool R sess (trace st) n a)\<rparr>"
  let ?st2 = "follow_up R http ts ?st1"
  let ?req = "followup_request (messages ?st1) ts"
  have p: "process_tool_call R sess http ts tc st = Inr ?st2"
    by (simp add: process_tool_call_def run_tool_call_fields [OF f])
  have s1: "\<forall>x\<in>set (final_text ?st1). is_str x" using Cons.prems(3) by simp
  have s2: "\<forall>x\<in>set (final_text ?st2). is_str x"
    using follow_up_final_text_str [OF Cons.prems(2) s1] .
  obtain more where x: "final_text ?st2 = final_text ?st1 @ more"
    using follow_up_final_text by blast
  have t2: "trace ?st2 = trace st @ requested_call R tc @ [Post ?req]"
    by (simp add: follow_up_trace requested_call_trace [OF f])
  from Cons.IH [of ?st2] Cons.prems(1,2) s2
  obtain st' runs where l: "process_tool_calls R sess http ts tcs ?st2 = Inr st'"
    and n: "length runs = length tcs"
    and t: "trace st' = trace ?st2 @ concat (map ?ev (zip tcs runs))"
    and ft: "final_text st' = final_text ?st2 @ concat (map ?fr runs)"
    and a: "\<forall>x\<in>set (final_text st'). is_str x"
    and r: "\<forall>i<length tcs. \<exists>n a tid r req more.
            tool_call_fields (tcs ! i) = Inr (n, a, tid)
          \<and> runs ! i = (n, r, req, more)
          \<and> r = fst (invoke_tool R sess
                   (trace ?st2 @ concat (map ?ev (zip (take i tcs) (take i runs)))) n a)"
    by auto
  let ?runs = "(n, ?r, ?req, more) # runs"
  have 1: "process_tool_calls R sess http ts (tc # tcs) st = Inr st'" using p l by simp
  have 2: "length ?runs = length (tc # tcs)" using n by simp
  have 3: "trace st' = trace st @ concat (map ?ev (zip (tc # tcs) ?runs))"
    using t t2 by simp
  have 4: "final_text st' = final_text st @ concat (map ?fr ?runs)"
    using ft x by simp
  have 5: "\<exists>n a tid r req more.
            tool_call_fields ((tc # tcs) ! i) = Inr (n, a, tid)
          \<and> ?runs ! i = (n, r, req, more)
          \<and> r = fst (invoke_tool R sess
                   (trace st @ concat (map ?ev (zip (take i (tc # tcs)) (take i ?runs)))) n a)"
    if "i < length (tc # tcs)" for i
  proof (cases i)
    case 0
    then show ?thesis using f by simp
  next
    case (Suc j)
    then have "j < length tcs" using that by simp
    with r obtain n' a' tid' r' req' more' where
      "tool_call_fields (tcs ! j) = Inr (n', a', tid')" "runs ! j = (n', r', req', more')"
      "r' = fst (invoke_tool R sess
                   (trace ?st2 @ concat (map ?ev (zip (take j tcs) (take j runs)))) n' a')"
      by blast
    then show ?thesis using Suc t2 by simp
  qed
  show ?case using 1 2 3 4 5 a by blast
qed

subsection \<open>Linked histories\<close>

lemma linked_append:
  "linked prev (xs @ ys) = (linked prev xs \<and> linked (if xs = [] then prev else Some (last xs)) ys)"
  by (induction xs arbitrary: prev) auto

lemma answers_call:
  assumes "py_getitem tc ''id'' = Inr i"
  shows "answers (assistant_call_message tc) (tool_message i r)"
  using assms by (simp add: answers_def assistant_call_message_def tool_message_def)

lemma tool_call_fields_id:
  assumes "tool_call_fields tc = Inr (n, a, i)"
  shows "py_getitem tc ''id'' = Inr i"
  using assms by (auto simp: tool_call_fields_def split: sum.splits)

lemma process_tool_call_linked:
  assumes "process_tool_call R sess http ts tc st = Inl (e, st') \<or> process_tool_call R sess http ts tc st = Inr st'"
    and "linked None (messages st)"
  shows "linked None (messages st')"
proof (cases "tool_call_fields tc")
  case (Inl e')
  then have "process_tool_call R sess http ts tc st = Inl (e', st)"
    by (simp add: process_tool_call_def run_tool_call_def)
  with assms show ?thesis by auto
next
  case (Inr f)
  obtain n a i where f: "f = (n, a, i)" by (cases f)
  from process_tool_call_fields [OF Inr [unfolded f], of R sess http ts st] assms(1)
  have m: "messages st' = messages st @
          [assistant_call_message tc, tool_message i (fst (invoke_tool R sess (trace st) n a))]"
    by auto
  have "py_getitem tc ''id'' = Inr i"
    using Inr f tool_call_fields_id by blast
  then have "answers (assistant_call_message tc) (tool_message i (fst (invoke_tool R sess (trace st) n a)))"
    by (rule answers_call)
  then show ?thesis using assms(2) unfolding m
    by (simp add: linked_append assistant_call_message_def)
qed

lemma process_tool_calls_linked:
  assumes "process_tool_calls R sess http ts tcs st = Inl (e, st') \<or> process_tool_calls R sess http ts tcs st = Inr st'"
    and "linked None (messages st)"
  shows "linked None (messages st')"
  using assms
proof (induction tcs arbitrary: st)
  case Nil
  then show ?case by simp
next
  case (Cons tc tcs)
  show ?case
  proof (cases "process_tool_call R sess http ts tc st")
    case (Inl x)
    then have "process_tool_call R sess http ts tc st = Inl (e, st')" using Cons.prems(1) by auto
    then show ?thesis using Cons.prems(2) process_tool_call_linked by blast
  next
    case (Inr st1)
    then have "linked None (messages st1)" using Cons.prems(2) process_tool_call_linked by blast
    moreover have "process_tool_calls R sess http ts tcs st1 = Inl (e, st') \<or> process_tool_calls R sess http ts tcs st1 = Inr st'"
      using Cons.prems(1) Inr by simp
    ultimately show ?thesis using Cons.IH by blast
  qed
qed

lemma handle_message_linked:
  assumes "handle_message R sess http ts m st = Inl (e, st') \<or> handle_message R sess http ts m st = Inr (s, st')"
    and "linked None (messages st)"
  shows "linked None (messages st')"
proof -
  have loopL: "linked None (messages st')"
    if "process_tool_calls R sess http ts tcs st1 = Inl (e, st')" "messages st1 = messages st"
    for tcs st1
    using process_tool_calls_linked [of R sess http ts tcs st1 e st'] that assms(2) by simp
  have loopR: "linked None (messages st')"
    if "process_tool_calls R sess http ts tcs st1 = Inr st'" "messages st1 = messages st"
    for tcs st1
    using process_tool_calls_linked [of R sess http ts tcs st1 e st'] that assms(2) by simp
  show ?thesis
    using assms
    by (auto simp: handle_message_def Let_def split: sum.splits if_splits intro: loopL loopR)
qed

lemma try_body_linked:
  assumes "try_body R sess http query = Inl (e, st') \<or> try_body R sess http query = Inr (s, st')"
  shows "linked None (messages st')"
proof -
  have u: "linked None [user_message query]" by (simp add: user_message_def)
  have h: "linked None (messages st')"
    if "handle_message R sess http ts m st = Inl (e, st') \<or> handle_message R sess http ts m st = Inr (s, st')"
      "messages st = [user_message query]"
    for ts m st
    using handle_message_linked [OF that(1)] that(2) u by simp
  show ?thesis
    using assms u
    by (auto simp: try_body_def Let_def split: sum.splits if_splits intro: h)
qed

subsection \<open>A first response that asks for tool calls\<close>

lemma process_query_batch:
  fixes client :: "'c MCPClient"
  assumes "session client = Some sess"
    and "initial_response client query = Some resp"
    and "status_code resp = 200" and "resp_json resp = Inr d"
    and "first_message R d = Inr (Inr (JObj msg))"
    and "map_of msg ''tool_calls'' = Some (JArr tcs)"
  shows "\<exists>ts st0.
       messages st0 = [user_message query]
     \<and> final_text st0 = (case map_of msg ''content'' of
                           None \<Rightarrow> []
                         | Some c \<Rightarrow> if truthy c then [c] else [])
     \<and> (\<exists>req0. trace st0 = [ListTools, Post req0])
     \<and> (\<forall>st2. process_tool_calls R sess (http_client client) ts tcs st0 = Inr st2 \<longrightarrow>
            events (process_query R client query) = trace st2
          \<and> history (process_query R client query) = messages st2
          \<and> answer (process_query R client query) =
              (case join_fragments (final_text st2) of
                 Inl e \<Rightarrow> ''Error processing query: '' @ str_exn R e
               | Inr s \<Rightarrow> s))"
proof -
  from assms(2) obtain sess' listed where s: "session client = Some sess'"
    and l: "list_tools sess' [] = Inr listed"
    and p: "post (http_client client) [ListTools]
       (initial_request [user_message query] (available_tools listed)) = Inr resp"
    by (rule initial_responseD)
  from s assms(1) have [simp]: "sess' = sess" by simp
  let ?ts = "available_tools listed"
  let ?st1 = "\<lparr>messages = [user_message query], final_text = [],
              trace = [ListTools, Post (initial_request [user_message query] ?ts)]\<rparr> :: 'c state"
  let ?c = "case map_of msg ''content'' of None \<Rightarrow> JNull | Some v \<Rightarrow> v"
  let ?st0 = "if truthy ?c then ?st1\<lparr>final_text := final_text ?st1 @ [?c]\<rparr> else ?st1"
  have tb: "try_body R sess (http_client client) query =
      handle_message R sess (http_client client) ?ts (JObj msg) ?st1"
    using try_body_message [OF l p assms(3,4,5)] by simp
  have hm: "handle_message R sess (http_client client) ?ts (JObj msg) ?st1 =
      (case process_tool_calls R sess (http_client client) ?ts tcs ?st0 of
         Inl x \<Rightarrow> Inl x
       | Inr st2 \<Rightarrow>
           (case join_fragments (final_text st2) of
              Inl e \<Rightarrow> Inl (e, st2)
            | Inr s \<Rightarrow> Inr (s, st2)))"
    using assms(6) by (simp add: handle_message_def Let_def)
  have 1: "messages ?st0 = [user_message query]" by simp
  have 2: "final_text ?st0 = (case map_of msg ''content'' of
                           None \<Rightarrow> []
                         | Some c \<Rightarrow> if truthy c then [c] else [])"
    by (simp split: option.splits)
  have 3: "\<exists>req0. trace ?st0 = [ListTools, Post req0]" by simp
  have 4: "events (process_query R client query) = trace st2
          \<and> history (process_query R client query) = messages st2
          \<and> answer (process_query R client query) =
              (case join_fragments (final_text st2) of
                 Inl e \<Rightarrow> ''Error processing query: '' @ str_exn R e
               | Inr s \<Rightarrow> s)"
    if "process_tool_calls R sess (http_client client) ?ts tcs ?st0 = Inr st2" for st2
    using that assms(1) tb hm by (simp add: process_query_def split: sum.splits)
  show ?thesis using 1 2 3 4 by blast
qed

subsection \<open>Where an exception can leave the method\<close>







subsection \<open>Runs without cancellation and with a console that takes every line\<close>








subsection \<open>Facts about the example runs\<close>

lemma demo_initial_response: "initial_response (demo_client (Inr r) next) q = Some r"
  by (simp add: initial_response_def demo_client_def demo_session_def)

lemma demo_client_session: "session (demo_client first next) = Some demo_session"
  by (simp add: demo_client_def)

lemma demo_runtime_fields:
  "repr_content demo_runtime c = c"
  "preview_error demo_runtime ''4'' = None"
  "preview_error demo_runtime ''None'' = Some TypeError"
  "error_text demo_runtime e = ''<message>''"
  "json_loads demo_runtime ''{\"x\":1}'' = Inr (JObj [(''x'', JInt 1)])"
  "json_loads demo_runtime ''not json'' = Inl (Exception ''Expecting value: line 1 column 1 (char 0)'')"
  by (simp_all add: demo_runtime_def)

lemma call_fields:
  "tool_call_fields call_1 = Inr (JStr ''add'', JStr ''{\"x\":1}'', JStr ''call_1'')"
  "tool_call_fields call_2 = Inr (JStr ''mul'', JObj [], JStr ''call_2'')"
  "tool_call_fields call_3 = Inr (JStr ''add'', JObj [(''x'', JInt 2)], JStr ''call_3'')"
  "tool_call_fields bad_call = Inr (JStr ''add'', JStr ''not json'', JStr ''call_1'')"
  "tool_call_fields call_4 = Inr (JStr ''noop'', JObj [], JStr ''call_4'')"
  by (simp_all add: tool_call_fields_def call_1_def call_2_def call_3_def bad_call_def call_4_def)

lemma demo_parse_args:
  "parse_args demo_runtime (JStr ''{\"x\":1}'') = Inr (JObj [(''x'', JInt 1)])"
  "parse_args demo_runtime (JObj kvs) = Inr (JObj kvs)"
  "parse_args demo_runtime (JStr ''not json'') = Inl (Exception ''Expecting value: line 1 column 1 (char 0)'')"
  by (simp_all add: parse_args_def demo_runtime_def)

lemma demo_requested_calls:
  "requested_call demo_runtime call_1 = [CallTool (JStr ''add'') (JObj [(''x'', JInt 1)])]"
  "requested_call demo_runtime call_2 = [CallTool (JStr ''mul'') (JObj [])]"
  "requested_call demo_runtime call_3 = [CallTool (JStr ''add'') (JObj [(''x'', JInt 2)])]"
  "requested_call demo_runtime bad_call = []"
  "requested_call demo_runtime call_4 = [CallTool (JStr ''noop'') (JObj [])]"
  by (simp_all add: requested_call_def call_fields demo_parse_args)

lemma demo_call_tool:
  "call_tool demo_session tr (JStr ''add'') a = Inr ''4''"
  "call_tool demo_session tr (JStr ''mul'') a = Inl (Exception ''Unknown tool'')"
  "call_tool demo_session tr (JStr ''noop'') a = Inr ''None''"
  by (simp_all add: demo_session_def)

lemma demo_error_strs:
  "py_str demo_runtime auth_error =
     ''{'' @ [CHR 0x27] @ ''code'' @ [CHR 0x27] @ '': 401, ''
        @ [CHR 0x27] @ ''message'' @ [CHR 0x27] @ '': ''
        @ [CHR 0x27] @ ''No auth credentials found'' @ [CHR 0x27] @ ''}''"
  "py_str demo_runtime lines_error =
     ''{'' @ [CHR 0x27] @ ''message'' @ [CHR 0x27] @ '': ''
        @ [CHR 0x27] @ ''bad'' @ [CHR 0x5C] @ ''nrequest'' @ [CHR 0x27] @ ''}''"
  by (simp_all add: auth_error_def lines_error_def repr_str_def repr_char_def repr_int_def
      decimal.simps digit_char_def Let_def)

lemma mixed_response_facts:
  "status_code mixed_response = 200"
  "resp_json mixed_response = Inr (JObj [(''choices'', JArr [JObj [(''message'', JObj mixed_message)]])])"
  "first_message R (JObj [(''choices'', JArr [JObj [(''message'', JObj mixed_message)]])])
     = Inr (Inr (JObj mixed_message))"
  "map_of mixed_message ''tool_calls'' = Some (JArr [call_3, call_2, call_3, call_4])"
  "map_of mixed_message ''content'' = None"
  by (simp_all add: mixed_response_def first_message_def mixed_message_def)

lemma mixed_text_replies:
  "\<forall>tr req r c. post (http_client (demo_client (Inr mixed_response) (Inr done_response))) tr req = Inr r \<longrightarrow>
      follow_up_content r = Inr (Some c) \<longrightarrow> is_str c"
  by (auto simp: demo_client_def follow_up_content_def mixed_response_def done_response_def
      mixed_message_def split: if_splits)

lemma runs_calls:
  "filter is_call (concat (map (\<lambda>(tc, n, r, req, more). requested_call R tc @ [Post req]) (zip tcs runs)))
     = concat (map (requested_call R) (take (length runs) tcs))"
proof (induction tcs arbitrary: runs)
  case Nil
  then show ?case by simp
next
  case (Cons tc tcs)
  have c: "filter is_call (requested_call R tc) = requested_call R tc"
    by (simp add: requested_call_def split: sum.splits prod.splits)
  show ?case using Cons.IH c by (cases runs) (auto split: prod.splits)
qed

lemma batch_response_facts:
  "status_code batch_response = 200"
  "resp_json batch_response = Inr (JObj [(''choices'', JArr [JObj [(''message'', JObj batch_message)]])])"
  "first_message R (JObj [(''choices'', JArr [JObj [(''message'', JObj batch_message)]])])
     = Inr (Inr (JObj batch_message))"
  "map_of batch_message ''tool_calls'' = Some (JArr [call_1, call_2, call_3])"
  "map_of batch_message ''content'' = Some (JStr ''Checking.'')"
  by (simp_all add: batch_response_def first_message_def batch_message_def)

lemma bad_call_response_facts:
  "status_code bad_call_response = 200"
  "resp_json bad_call_response =
     Inr (JObj [(''choices'', JArr [JObj [(''message'', JObj [(''tool_calls'', JArr [bad_call])])]])])"
  "first_message R (JObj [(''choices'', JArr [JObj [(''message'', JObj [(''tool_calls'', JArr [bad_call])])]])])
     = Inr (Inr (JObj [(''tool_calls'', JArr [bad_call])]))"
  by (simp_all add: bad_call_response_def first_message_def)

lemma demo_text_replies:
  "\<forall>tr req r c. post (http_client (demo_client (Inr batch_response) (Inr done_response))) tr req = Inr r \<longrightarrow>
      follow_up_content r = Inr (Some c) \<longrightarrow> is_str c"
  by (auto simp: demo_client_def follow_up_content_def batch_response_def done_response_def
      batch_message_def split: if_splits)

lemma demo_run_tool_call:
  "run_tool_call demo_runtime demo_session call_3 \<lparr>messages = [], final_text = [], trace = []\<rparr>
     = Inr \<lparr>messages = [assistant_call_message call_3, tool_message (JStr ''call_3'') (PyContent ''4'')],
            final_text = [JStr ''[Tool add result: 4]''],
            trace = [CallTool (JStr ''add'') (JObj [(''x'', JInt 2)])]\<rparr>"
  by (simp add: run_tool_call_def call_fields invoke_tool_def demo_parse_args demo_call_tool
      tool_fragment_def demo_runtime_fields)

lemma demo_follow_up_post:
  "post (http_client (demo_client first next)) [CallTool n a] req = next"
  by (simp add: demo_client_def)

section \<open>Plain answers\<close>

text \<open>
  Claim C1, as amended. When the initial response has status 200, its body is an object
  with no top-level \<open>error\<close> field and a non-empty \<open>choices\<close> list, and the assistant
  message of the first choice has a text \<open>content\<close> and no tool calls (no \<open>tool_calls\<close>
  key, or an empty list), \<open>process_query\<close> returns exactly that text.
\<close>

theorem plain_answer_is_content:
  assumes "initial_response client query = Some resp"
    and "status_code resp = 200"
    and "resp_json resp = Inr (JObj body)"
    and "map_of body ''error'' = None"
    and "map_of body ''choices'' = Some (JArr (JObj choice # others))"
    and "map_of choice ''message'' = Some (JObj msg)"
    and "map_of msg ''content'' = Some (JStr txt)"
    and "map_of msg ''tool_calls'' = None \<or> map_of msg ''tool_calls'' = Some (JArr [])"
  shows "answer (process_query R client query) = txt"
proof -
  from assms(1) obtain sess listed where s: "session client = Some sess"
    and l: "list_tools sess [] = Inr listed"
    and p: "post (http_client client) [ListTools]
       (initial_request [user_message query] (available_tools listed)) = Inr resp"
    by (rule initial_responseD)
  have fm: "first_message R (JObj body) = Inr (Inr (JObj msg))"
    using assms(4-6) by (rule first_message_obj)
  have tb: "try_body R sess (http_client client) query =
           handle_message R sess (http_client client) (available_tools listed) (JObj msg)
             \<lparr>messages = [user_message query], final_text = [],
              trace = [ListTools, Post (initial_request [user_message query] (available_tools listed))]\<rparr>"
    using l p assms(2,3) fm by (rule try_body_message)
  have "\<exists>st. handle_message R sess (http_client client) (available_tools listed) (JObj msg)
             \<lparr>messages = [user_message query], final_text = [],
              trace = [ListTools, Post (initial_request [user_message query] (available_tools listed))]\<rparr>
        = Inr (txt, st)"
    using assms(7,8) by (cases "txt = []") (auto simp: handle_message_def Let_def join_fragments_def)
  then show ?thesis using s tb by (auto simp: process_query_def)
qed

text \<open>The theorem at a concrete run.\<close>

theorem plain_answer_is_content_witness:
  "answer (process_query demo_runtime (demo_client (Inr hello_response) (Inr done_response)) ''hi'')
     = ''hello''"
proof -
  have "initial_response (demo_client (Inr hello_response) (Inr done_response)) ''hi'' = Some hello_response"
    by (simp add: initial_response_def demo_client_def demo_session_def)
  moreover have "status_code hello_response = 200" by (simp add: hello_response_def)
  moreover have "resp_json hello_response = Inr (JObj hello_body)" by (simp add: hello_response_def)
  moreover have "map_of hello_body ''error'' = None" by (simp add: hello_body_def)
  moreover have "map_of hello_body ''choices'' =
      Some (JArr (JObj [(''message'', JObj [(''content'', JStr ''hello'')])] # []))"
    by (simp add: hello_body_def)
  moreover have "map_of [(''message'', JObj [(''content'', JStr ''hello'')])] ''message''
      = Some (JObj [(''content'', JStr ''hello'')])" by simp
  moreover have "map_of [(''content'', JStr ''hello'')] ''content'' = Some (JStr ''hello'')" by simp
  moreover have "map_of [(''content'', JStr ''hello'')] ''tool_calls'' = None
     \<or> map_of [(''content'', JStr ''hello'')] ''tool_calls'' = Some (JArr [])" by simp
  ultimately show ?thesis by (rule plain_answer_is_content)
qed

text \<open>
  Claim C1 as stated fails where the body has a top-level \<open>error\<close> field beside a
  non-empty \<open>choices\<close> list: the check of line 136 returns before the content is read.
\<close>

theorem error_field_wins_counterexample:
  "initial_response (demo_client (Inr both_response) (Inr done_response)) ''hi'' = Some both_response
   \<and> status_code both_response = 200
   \<and> resp_json both_response = Inr (JObj both_body)
   \<and> map_of both_body ''choices'' = Some (JArr [JObj [(''message'', JObj [(''content'', JStr ''hello'')])]])
   \<and> map_of [(''content'', JStr ''hello'')] ''tool_calls'' = None
   \<and> answer (process_query demo_runtime (demo_client (Inr both_response) (Inr done_response)) ''hi'')
       = ''Error from OpenRouter: boom''
   \<and> answer (process_query demo_runtime (demo_client (Inr both_response) (Inr done_response)) ''hi'')
       \<noteq> ''hello''"
  by (simp add: initial_response_def demo_client_def demo_session_def both_response_def both_body_def
      hello_body_def process_query_def try_body_def first_message_def Let_def demo_runtime_def)

section \<open>The tool calls of one assistant message\<close>

text \<open>
  Claim C2, as amended. When the assistant message of the initial response carries \<open>N\<close>
  tool calls, each with its \<open>function.name\<close>, \<open>function.arguments\<close> and \<open>id\<close>, the Tool
  Session invocations \<open>process_query\<close> issues are, in the order of the list, one for each
  tool call whose arguments are structured or decode, and none for a tool call whose
  textual arguments do not decode: at most \<open>N\<close>, and exactly \<open>N\<close> when all arguments
  decode. It issues exactly \<open>N\<close> follow-up Model Endpoint calls, one after each tool call.
\<close>

theorem tool_calls_run_in_order:
  assumes "initial_response client query = Some resp"
    and "status_code resp = 200" and "resp_json resp = Inr d"
    and "first_message R d = Inr (Inr (JObj msg))"
    and "map_of msg ''tool_calls'' = Some (JArr tcs)"
    and "\<forall>tc\<in>set tcs. \<exists>f. tool_call_fields tc = Inr f"
  shows "(\<exists>req0 reqs. length reqs = length tcs
          \<and> events (process_query R client query) =
               [ListTools, Post req0]
               @ concat (map (\<lambda>(tc, req). requested_call R tc @ [Post req]) (zip tcs reqs)))
     \<and> filter is_call (events (process_query R client query)) = concat (map (requested_call R) tcs)
     \<and> length (filter is_call (events (process_query R client query))) \<le> length tcs
     \<and> ((\<forall>tc\<in>set tcs. \<exists>n a i p. tool_call_fields tc = Inr (n, a, i) \<and> parse_args R a = Inr p) \<longrightarrow>
          length (filter is_call (events (process_query R client query))) = length tcs)
     \<and> length (filter is_post (events (process_query R client query))) = 1 + length tcs"
proof -
  from assms(1) obtain sess where s: "session client = Some sess"
    by (auto elim: initial_responseD)
  from process_query_batch [OF s assms(1-5)] obtain ts st0 req0
    where t0: "trace st0 = [ListTools, Post req0]"
      and fin: "\<And>st2. process_tool_calls R sess (http_client client) ts tcs st0 = Inr st2 \<Longrightarrow>
            events (process_query R client query) = trace st2"
    by blast
  from process_tool_calls_events [OF assms(6), of R sess "http_client client" ts st0]
  obtain st' reqs where l: "process_tool_calls R sess (http_client client) ts tcs st0 = Inr st'"
    and n: "length reqs = length tcs"
    and c: "trace st' = trace st0
          @ concat (map (\<lambda>(tc, req). requested_call R tc @ [Post req]) (zip tcs reqs))"
    by blast
  have ev: "events (process_query R client query) =
               [ListTools, Post req0]
               @ concat (map (\<lambda>(tc, req). requested_call R tc @ [Post req]) (zip tcs reqs))"
    using fin [OF l] c t0 by simp
  have 1: "filter is_call (events (process_query R client query)) = concat (map (requested_call R) tcs)"
    using n by (simp add: ev events_calls)
  have 2: "length (filter is_post (events (process_query R client query))) = 1 + length tcs"
    using n by (simp add: ev events_posts)
  have le: "length (concat (map (requested_call R) xs)) \<le> length xs" for xs
    by (induction xs) (auto simp: requested_call_def split: sum.splits)
  have eq: "length (concat (map (requested_call R) xs)) = length xs"
    if "\<forall>tc\<in>set xs. \<exists>n a i p. tool_call_fields tc = Inr (n, a, i) \<and> parse_args R a = Inr p" for xs
    using that by (induction xs) (auto simp: requested_call_def)
  have 0: "\<exists>req0 reqs. length reqs = length tcs
          \<and> events (process_query R client query) =
               [ListTools, Post req0]
               @ concat (map (\<lambda>(tc, req). requested_call R tc @ [Post req]) (zip tcs reqs))"
    using n ev by blast
  show ?thesis using 0 1 2 le eq by simp
qed

text \<open>The theorem at a concrete run.\<close>

theorem tool_calls_run_in_order_witness:
  "filter is_call
     (events (process_query demo_runtime (demo_client (Inr batch_response) (Inr done_response)) ''q''))
     = [CallTool (JStr ''add'') (JObj [(''x'', JInt 1)]), CallTool (JStr ''mul'') (JObj []),
        CallTool (JStr ''add'') (JObj [(''x'', JInt 2)])]
   \<and> length (filter is_post
        (events (process_query demo_runtime (demo_client (Inr batch_response) (Inr done_response)) ''q'')))
     = 4"
proof -
  have wf: "\<forall>tc\<in>set [call_1, call_2, call_3]. \<exists>f. tool_call_fields tc = Inr f"
    by (simp add: call_fields)
  let ?out = "process_query demo_runtime (demo_client (Inr batch_response) (Inr done_response)) ''q''"
  have "(\<exists>req0 reqs. length reqs = length [call_1, call_2, call_3]
          \<and> events ?out =
               [ListTools, Post req0]
               @ concat (map (\<lambda>(tc, req). requested_call demo_runtime tc @ [Post req])
                   (zip [call_1, call_2, call_3] reqs)))
     \<and> filter is_call (events ?out) = concat (map (requested_call demo_runtime) [call_1, call_2, call_3])
     \<and> length (filter is_call (events ?out)) \<le> length [call_1, call_2, call_3]
     \<and> ((\<forall>tc\<in>set [call_1, call_2, call_3].
            \<exists>n a i p. tool_call_fields tc = Inr (n, a, i) \<and> parse_args demo_runtime a = Inr p) \<longrightarrow>
          length (filter is_call (events ?out)) = length [call_1, call_2, call_3])
     \<and> length (filter is_post (events ?out)) = 1 + length [call_1, call_2, call_3]"
    by (rule tool_calls_run_in_order [OF demo_initial_response batch_response_facts(1-4) wf])
  then show ?thesis
    by (simp add: demo_requested_calls)
qed

text \<open>
  Claim C2 as stated fails on the number of invocations: for one tool call whose
  arguments are the text \<open>not json\<close>, \<open>json.loads\<close> raises inside the inner \<open>try\<close> before
  \<open>call_tool\<close> is reached, and no invocation is issued.
\<close>

theorem undecodable_call_not_invoked_counterexample:
  "initial_response (demo_client (Inr bad_call_response) (Inr done_response)) ''q'' = Some bad_call_response
   \<and> status_code bad_call_response = 200
   \<and> resp_json bad_call_response =
       Inr (JObj [(''choices'', JArr [JObj [(''message'', JObj [(''tool_calls'', JArr [bad_call])])]])])
   \<and> length [bad_call] = 1
   \<and> filter is_call
       (events (process_query demo_runtime (demo_client (Inr bad_call_response) (Inr done_response)) ''q''))
       = []"
proof -
  have "events (process_query demo_runtime (demo_client (Inr bad_call_response) (Inr done_response)) ''q'')
     = [ListTools,
        Post (initial_request [user_message ''q''] (available_tools
            [\<lparr>name = ''add'', description = Some ''Add numbers'', inputSchema = JObj []\<rparr>])),
        Post (followup_request
           [user_message ''q'', assistant_call_message bad_call,
            tool_message (JStr ''call_1'')
              (PyStr ''Error executing tool add: Expecting value: line 1 column 1 (char 0)'')]
           (available_tools
            [\<lparr>name = ''add'', description = Some ''Add numbers'', inputSchema = JObj []\<rparr>]))]"
    by (simp add: process_query_def try_body_def Let_def demo_client_def demo_session_def
        bad_call_response_facts handle_message_def process_tool_call_def
        run_tool_call_def call_fields invoke_tool_def demo_parse_args follow_up_def
        follow_up_content_def done_response_def join_fragments_def error_executing_def
        tool_fragment_def split: sum.splits)
  then show ?thesis
    by (simp add: demo_initial_response bad_call_response_facts)
qed

section \<open>A failing tool invocation\<close>

text \<open>
  Claim C3. Let the assistant message of the initial response carry tool calls, each with
  its three fields, and let every content the endpoint returns be text. Then the run
  has one entry for each tool call, in the order of the list: the calls made are the
  initial ones followed, for each tool call, by its invocation (when its arguments
  decode) and its follow-up call; the answer is the join of the initial content and, for
  each tool call, of its fragment \<open>[Tool name result: ...]\<close> and what the follow-up added.
  The result in the fragment of the tool call at position \<open>i\<close> is decided by that call
  alone: the text \<open>Error executing tool name: message\<close> when its arguments do not decode,
  when \<open>call_tool\<close>, asked after the calls made before, raises, or when line 162 raises on
  the content; the content otherwise. A failure of one call leaves the others invoked
  and reported.
\<close>

theorem tool_failure_is_contained:
  assumes "session client = Some sess"
    and "initial_response client query = Some resp"
    and "status_code resp = 200" and "resp_json resp = Inr d"
    and "first_message R d = Inr (Inr (JObj msg))"
    and "map_of msg ''tool_calls'' = Some (JArr tcs)"
    and "\<forall>tc\<in>set tcs. \<exists>f. tool_call_fields tc = Inr f"
    and "\<forall>c. map_of msg ''content'' = Some c \<longrightarrow> truthy c \<longrightarrow> is_str c"
    and "\<forall>tr req r c. post (http_client client) tr req = Inr r \<longrightarrow>
           follow_up_content r = Inr (Some c) \<longrightarrow> is_str c"
  shows "\<exists>req0 runs.
       length runs = length tcs
     \<and> events (process_query R client query) =
         [ListTools, Post req0]
         @ concat (map (\<lambda>(tc, tool_name, tool_result, req, more). requested_call R tc @ [Post req])
                    (zip tcs runs))
     \<and> join_fragments
         ((case map_of msg ''content'' of None \<Rightarrow> [] | Some c \<Rightarrow> if truthy c then [c] else [])
          @ concat (map (\<lambda>(tool_name, tool_result, req, more).
                           JStr (tool_fragment R tool_name tool_result) # more) runs))
         = Inr (answer (process_query R client query))
     \<and> (\<forall>i<length tcs. \<exists>tool_name tool_args tool_id tool_result req more.
            tool_call_fields (tcs ! i) = Inr (tool_name, tool_args, tool_id)
          \<and> runs ! i = (tool_name, tool_result, req, more)
          \<and> sublist (''[Tool '' @ py_str R tool_name @ '' result: '' @ str_obj R tool_result @ '']'')
               (answer (process_query R client query))
          \<and> (case parse_args R tool_args of
               Inl e \<Rightarrow>
                 tool_result =
                   PyStr (''Error executing tool '' @ py_str R tool_name @ '': '' @ str_exn R e)
             | Inr parsed_args \<Rightarrow>
                 (case call_tool sess
                         ([ListTools, Post req0]
                          @ concat (map (\<lambda>(tc, tool_name, tool_result, req, more).
                                           requested_call R tc @ [Post req])
                                      (zip (take i tcs) (take i runs))))
                         tool_name parsed_args of
                    Inl e \<Rightarrow>
                      tool_result =
                        PyStr (''Error executing tool '' @ py_str R tool_name @ '': '' @ str_exn R e)
                  | Inr c \<Rightarrow>
                      (case preview_error R c of
                         Some e \<Rightarrow>
                           tool_result =
                             PyStr (''Error executing tool '' @ py_str R tool_name @ '': ''
                                    @ str_exn R e)
                       | None \<Rightarrow> tool_result = PyContent c))))"
proof -
  let ?ev = "\<lambda>(tc, n, r, req, more). requested_call R tc @ [Post req]"
  let ?fr = "\<lambda>(n, r, req, more). JStr (tool_fragment R n r) # more"
  let ?out = "process_query R client query"
  from process_query_batch [OF assms(1-6)] obtain ts st0 req0
    where f0: "final_text st0 = (case map_of msg ''content'' of
                           None \<Rightarrow> []
                         | Some c \<Rightarrow> if truthy c then [c] else [])"
      and t0: "trace st0 = [ListTools, Post req0]"
      and fin: "\<And>st2. process_tool_calls R sess (http_client client) ts tcs st0 = Inr st2 \<Longrightarrow>
            events ?out = trace st2
          \<and> answer ?out =
              (case join_fragments (final_text st2) of
                 Inl e \<Rightarrow> ''Error processing query: '' @ str_exn R e
               | Inr s \<Rightarrow> s)"
    by blast
  have s0: "\<forall>x\<in>set (final_text st0). is_str x"
    using assms(8) f0 by (auto split: option.splits if_splits)
  from process_tool_calls_runs [OF assms(7,9) s0, of R sess ts]
  obtain st' runs where l: "process_tool_calls R sess (http_client client) ts tcs st0 = Inr st'"
    and n: "length runs = length tcs"
    and t: "trace st' = trace st0 @ concat (map ?ev (zip tcs runs))"
    and ft: "final_text st' = final_text st0 @ concat (map ?fr runs)"
    and a: "\<forall>x\<in>set (final_text st'). is_str x"
    and r: "\<forall>i<length tcs. \<exists>n a tid r req more.
            tool_call_fields (tcs ! i) = Inr (n, a, tid)
          \<and> runs ! i = (n, r, req, more)
          \<and> r = fst (invoke_tool R sess
                   (trace st0 @ concat (map ?ev (zip (take i tcs) (take i runs)))) n a)"
    by blast
  from join_fragments_total [OF a] obtain out where j: "join_fragments (final_text st') = Inr out" ..
  have ev: "events ?out = [ListTools, Post req0] @ concat (map ?ev (zip tcs runs))"
    using fin [OF l] t t0 by simp
  have an: "answer ?out = out" using fin [OF l] j by simp
  have jn: "join_fragments
         ((case map_of msg ''content'' of None \<Rightarrow> [] | Some c \<Rightarrow> if truthy c then [c] else [])
          @ concat (map ?fr runs)) = Inr (answer ?out)"
    using j an ft f0 by simp
  have each: "\<exists>tool_name tool_args tool_id tool_result req more.
            tool_call_fields (tcs ! i) = Inr (tool_name, tool_args, tool_id)
          \<and> runs ! i = (tool_name, tool_result, req, more)
          \<and> sublist (''[Tool '' @ py_str R tool_name @ '' result: '' @ str_obj R tool_result @ '']'')
               (answer ?out)
          \<and> (case parse_args R tool_args of
               Inl e \<Rightarrow>
                 tool_result =
                   PyStr (''Error executing tool '' @ py_str R tool_name @ '': '' @ str_exn R e)
             | Inr parsed_args \<Rightarrow>
                 (case call_tool sess
                         ([ListTools, Post req0] @ concat (map ?ev (zip (take i tcs) (take i runs))))
                         tool_name parsed_args of
                    Inl e \<Rightarrow>
                      tool_result =
                        PyStr (''Error executing tool '' @ py_str R tool_name @ '': '' @ str_exn R e)
                  | Inr c \<Rightarrow>
                      (case preview_error R c of
                         Some e \<Rightarrow>
                           tool_result =
                             PyStr (''Error executing tool '' @ py_str R tool_name @ '': ''
                                    @ str_exn R e)
                       | None \<Rightarrow> tool_result = PyContent c)))"
    if i: "i < length tcs" for i
  proof -
    from r i obtain tn a tid tr req more where f: "tool_call_fields (tcs ! i) = Inr (tn, a, tid)"
      and ri: "runs ! i = (tn, tr, req, more)"
      and re: "tr = fst (invoke_tool R sess
                   ([ListTools, Post req0] @ concat (map ?ev (zip (take i tcs) (take i runs)))) tn a)"
      unfolding t0 by blast
    have "runs ! i \<in> set runs" using i n by simp
    then have "JStr (tool_fragment R tn tr) \<in> set (concat (map ?fr runs))"
      unfolding ri by force
    then have "JStr (tool_fragment R tn tr) \<in> set (final_text st')" using ft by simp
    with j have "sublist (tool_fragment R tn tr) out"
      using tool_fragment_nonempty by (rule join_fragments_sublist)
    then have 1: "sublist (''[Tool '' @ py_str R tn @ '' result: '' @ str_obj R tr @ '']'')
          (answer ?out)"
      using an by (simp add: tool_fragment_def)
    have 2: "(case parse_args R a of
               Inl e \<Rightarrow> tr = PyStr (''Error executing tool '' @ py_str R tn @ '': '' @ str_exn R e)
             | Inr parsed_args \<Rightarrow>
                 (case call_tool sess
                         ([ListTools, Post req0] @ concat (map ?ev (zip (take i tcs) (take i runs))))
                         tn parsed_args of
                    Inl e \<Rightarrow>
                      tr = PyStr (''Error executing tool '' @ py_str R tn @ '': '' @ str_exn R e)
                  | Inr c \<Rightarrow>
                      (case preview_error R c of
                         Some e \<Rightarrow>
                           tr = PyStr (''Error executing tool '' @ py_str R tn @ '': '' @ str_exn R e)
                       | None \<Rightarrow> tr = PyContent c)))"
      unfolding re
      by (simp add: invoke_tool_result error_executing_def split: sum.splits option.splits)
    show ?thesis using f ri 1 2 by blast
  qed
  show ?thesis using n ev jn each by blast
qed

text \<open>The theorem at a concrete run.\<close>

theorem tool_failure_is_contained_witness:
  "filter is_call
     (events (process_query demo_runtime (demo_client (Inr mixed_response) (Inr done_response)) ''q''))
     = [CallTool (JStr ''add'') (JObj [(''x'', JInt 2)]), CallTool (JStr ''mul'') (JObj []),
        CallTool (JStr ''add'') (JObj [(''x'', JInt 2)]), CallTool (JStr ''noop'') (JObj [])]
   \<and> sublist ''[Tool add result: 4]''
     (answer (process_query demo_runtime (demo_client (Inr mixed_response) (Inr done_response)) ''q''))
   \<and> sublist ''[Tool mul result: Error executing tool mul: Unknown tool]''
     (answer (process_query demo_runtime (demo_client (Inr mixed_response) (Inr done_response)) ''q''))
   \<and> sublist ''[Tool noop result: Error executing tool noop: <message>]''
     (answer (process_query demo_runtime (demo_client (Inr mixed_response) (Inr done_response)) ''q''))"
proof -
  let ?out = "process_query demo_runtime (demo_client (Inr mixed_response) (Inr done_response)) ''q''"
  let ?tcs = "[call_3, call_2, call_3, call_4]"
  let ?ev = "\<lambda>(tc, tool_name, tool_result, req, more). requested_call demo_runtime tc @ [Post req]"
  let ?P = "\<lambda>req0 runs.
       length runs = length ?tcs
     \<and> events ?out = [ListTools, Post req0] @ concat (map ?ev (zip ?tcs runs))
     \<and> join_fragments
         ((case map_of mixed_message ''content'' of None \<Rightarrow> [] | Some c \<Rightarrow> if truthy c then [c] else [])
          @ concat (map (\<lambda>(tool_name, tool_result, req, more).
                           JStr (tool_fragment demo_runtime tool_name tool_result) # more) runs))
         = Inr (answer ?out)
     \<and> (\<forall>i<length ?tcs. \<exists>tool_name tool_args tool_id tool_result req more.
            tool_call_fields (?tcs ! i) = Inr (tool_name, tool_args, tool_id)
          \<and> runs ! i = (tool_name, tool_result, req, more)
          \<and> sublist (''[Tool '' @ py_str demo_runtime tool_name @ '' result: ''
                        @ str_obj demo_runtime tool_result @ '']'')
               (answer ?out)
          \<and> (case parse_args demo_runtime tool_args of
               Inl e \<Rightarrow>
                 tool_result =
                   PyStr (''Error executing tool '' @ py_str demo_runtime tool_name @ '': ''
                          @ str_exn demo_runtime e)
             | Inr parsed_args \<Rightarrow>
                 (case call_tool demo_session
                         ([ListTools, Post req0] @ concat (map ?ev (zip (take i ?tcs) (take i runs))))
                         tool_name parsed_args of
                    Inl e \<Rightarrow>
                      tool_result =
                        PyStr (''Error executing tool '' @ py_str demo_runtime tool_name @ '': ''
                               @ str_exn demo_runtime e)
                  | Inr c \<Rightarrow>
                      (case preview_error demo_runtime c of
                         Some e \<Rightarrow>
                           tool_result =
                             PyStr (''Error executing tool '' @ py_str demo_runtime tool_name @ '': ''
                                    @ str_exn demo_runtime e)
                       | None \<Rightarrow> tool_result = PyContent c))))"
  have wf: "\<forall>tc\<in>set ?tcs. \<exists>f. tool_call_fields tc = Inr f"
    by (simp add: call_fields)
  have c: "\<forall>c. map_of mixed_message ''content'' = Some c \<longrightarrow> truthy c \<longrightarrow> is_str c"
    by (simp add: mixed_response_facts)
  have "\<exists>req0 runs. ?P req0 runs"
    by (rule tool_failure_is_contained [OF demo_client_session demo_initial_response
          mixed_response_facts(1-4) wf c mixed_text_replies])
  then obtain req0 runs where P: "?P req0 runs" by (elim exE)
  from P have n: "length runs = length ?tcs" by (rule conjunct1)
  from P have ev: "events ?out = [ListTools, Post req0] @ concat (map ?ev (zip ?tcs runs))"
    by (elim conjE)
  have 0: "filter is_call (events ?out) =
      [CallTool (JStr ''add'') (JObj [(''x'', JInt 2)]), CallTool (JStr ''mul'') (JObj []),
       CallTool (JStr ''add'') (JObj [(''x'', JInt 2)]), CallTool (JStr ''noop'') (JObj [])]"
    unfolding ev using n by (simp add: runs_calls demo_requested_calls)
  from P have 1: "sublist ''[Tool add result: 4]'' (answer ?out)"
    by (elim conjE allE [of _ 0])
       (auto simp: call_fields demo_parse_args demo_call_tool demo_runtime_fields)
  from P have 2: "sublist ''[Tool mul result: Error executing tool mul: Unknown tool]'' (answer ?out)"
    by (elim conjE allE [of _ "Suc 0"])
       (auto simp: call_fields demo_parse_args demo_call_tool demo_runtime_fields)
  from P have 3: "sublist ''[Tool noop result: Error executing tool noop: <message>]'' (answer ?out)"
    by (elim conjE allE [of _ "Suc (Suc (Suc 0))"])
       (auto simp: call_fields demo_parse_args demo_call_tool demo_runtime_fields)
  show ?thesis using 0 1 2 3 by blast
qed

section \<open>A failed initial call\<close>

text \<open>
  Claim C4, as amended. When the initial call returns a status other than 200,
  \<open>process_query\<close> returns \<open>Error from OpenRouter API: \<close> followed by the raw response
  body, invokes no tool, and leaves the history at the user message alone. The status
  code is not part of the returned string.
\<close>

theorem transport_failure_aborts:
  assumes "initial_response client query = Some resp"
    and "status_code resp \<noteq> 200"
  shows "answer (process_query R client query) = ''Error from OpenRouter API: '' @ resp_text resp
     \<and> filter is_call (events (process_query R client query)) = []
     \<and> history (process_query R client query) = [user_message query]"
  using assms
  by (auto elim!: initial_responseD simp: process_query_def try_body_def Let_def)

text \<open>The theorem at a concrete run.\<close>

theorem transport_failure_aborts_witness:
  "status_code failed_response \<noteq> 200
   \<and> answer (process_query demo_runtime (demo_client (Inr failed_response) (Inr done_response)) ''hi'')
       = ''Error from OpenRouter API: boom''
   \<and> filter is_call
        (events (process_query demo_runtime (demo_client (Inr failed_response) (Inr done_response)) ''hi''))
       = []
   \<and> history (process_query demo_runtime (demo_client (Inr failed_response) (Inr done_response)) ''hi'')
       = [user_message ''hi'']"
proof -
  have i: "initial_response (demo_client (Inr failed_response) (Inr done_response)) ''hi''
             = Some failed_response"
    by (simp add: initial_response_def demo_client_def demo_session_def)
  have s: "status_code failed_response \<noteq> 200" by (simp add: failed_response_def)
  have t: "resp_text failed_response = ''boom''" by (simp add: failed_response_def)
  show ?thesis
    using transport_failure_aborts [OF i s, of demo_runtime] s t by simp
qed

text \<open>
  Claim C4 as stated fails on the status: for a response with status 500 and body
  \<open>boom\<close> the returned string does not contain \<open>500\<close>.
\<close>

theorem status_not_in_answer_counterexample:
  "initial_response (demo_client (Inr failed_response) (Inr done_response)) ''hi'' = Some failed_response
   \<and> status_code failed_response = 500
   \<and> answer (process_query demo_runtime (demo_client (Inr failed_response) (Inr done_response)) ''hi'')
       = ''Error from OpenRouter API: boom''
   \<and> \<not> sublist ''500''
         (answer (process_query demo_runtime (demo_client (Inr failed_response) (Inr done_response)) ''hi''))"
  by (simp add: initial_response_def demo_client_def demo_session_def failed_response_def
      process_query_def try_body_def Let_def sublist_code)

section \<open>A malformed initial response\<close>

text \<open>
  Claim C5, as amended. When the body of the initial response (status 200) is an object
  with a top-level \<open>error\<close> field, \<open>process_query\<close> returns \<open>Error from OpenRouter: \<close>
  followed by Python's \<open>str\<close> of that field's value: a string appears as it is, and any
  other value in its Python printed form, an object as a dict display whose keys and
  strings stand between quotes with their special characters escaped. When the body has
  no \<open>error\<close> field and its \<open>choices\<close> is absent or empty, the answer is
  \<open>Invalid response received from API\<close>; when \<open>choices\<close> is something else that is not
  a list, the answer is \<open>Error processing query: \<close> followed by the text of an exception.
\<close>

theorem malformed_response_aborts:
  assumes "initial_response client query = Some resp"
    and "status_code resp = 200"
    and "resp_json resp = Inr (JObj body)"
  shows "(\<forall>err. map_of body ''error'' = Some err \<longrightarrow>
            answer (process_query R client query) = ''Error from OpenRouter: '' @ py_str R err)
     \<and> (\<forall>s. map_of body ''error'' = Some (JStr s) \<longrightarrow>
            answer (process_query R client query) = ''Error from OpenRouter: '' @ s)
     \<and> (\<forall>kvs. map_of body ''error'' = Some (JObj kvs) \<longrightarrow>
            answer (process_query R client query) =
              ''Error from OpenRouter: {''
              @ comma_join (map (\<lambda>kv. repr_str R (fst kv) @ '': '' @ py_repr R (snd kv)) kvs)
              @ ''}'')
     \<and> (map_of body ''error'' = None \<longrightarrow>
          (map_of body ''choices'' = None \<or> (\<exists>v. map_of body ''choices'' = Some v \<and> \<not> truthy v)) \<longrightarrow>
            answer (process_query R client query) = ''Invalid response received from API'')
     \<and> (\<forall>v. map_of body ''error'' = None \<longrightarrow> map_of body ''choices'' = Some v \<longrightarrow> truthy v \<longrightarrow>
            (\<forall>xs. v \<noteq> JArr xs) \<longrightarrow>
            (\<exists>e. answer (process_query R client query) = ''Error processing query: '' @ str_exn R e))"
proof -
  from assms(1) obtain sess listed where s: "session client = Some sess"
    and l: "list_tools sess [] = Inr listed"
    and p: "post (http_client client) [ListTools]
       (initial_request [user_message query] (available_tools listed)) = Inr resp"
    by (rule initial_responseD)
  note ret = try_body_return [OF l p assms(2,3)]
  note rai = try_body_raise [OF l p assms(2,3)]
  have a: "answer (process_query R client query) = ''Error from OpenRouter: '' @ py_str R err"
    if "map_of body ''error'' = Some err" for err
    using ret [OF first_message_error [OF that]] s by (simp add: process_query_def)
  have b: "answer (process_query R client query) = ''Invalid response received from API''"
    if "map_of body ''error'' = None"
      "map_of body ''choices'' = None \<or> (\<exists>v. map_of body ''choices'' = Some v \<and> \<not> truthy v)"
    using ret [OF first_message_invalid [OF that]] s by (simp add: process_query_def)
  have c: "\<exists>e. answer (process_query R client query) = ''Error processing query: '' @ str_exn R e"
    if "map_of body ''error'' = None" "map_of body ''choices'' = Some v" "truthy v" "\<forall>xs. v \<noteq> JArr xs"
    for v
  proof -
    from first_message_not_list [OF that] obtain e where "first_message R (JObj body) = Inl e" ..
    from rai [OF this] s show ?thesis by (auto simp: process_query_def)
  qed
  have a': "answer (process_query R client query) = ''Error from OpenRouter: '' @ s"
    if "map_of body ''error'' = Some (JStr s)" for s
    using a [OF that] by simp
  have a'': "answer (process_query R client query) =
              ''Error from OpenRouter: {''
              @ comma_join (map (\<lambda>kv. repr_str R (fst kv) @ '': '' @ py_repr R (snd kv)) kvs)
              @ ''}''"
    if "map_of body ''error'' = Some (JObj kvs)" for kvs
    using a [OF that] by simp
  show ?thesis using a a' a'' b c by blast
qed

text \<open>The theorem at a concrete run.\<close>

theorem malformed_response_aborts_witness:
  "answer (process_query demo_runtime (demo_client (Inr both_response) (Inr done_response)) ''hi'')
     = ''Error from OpenRouter: boom''
   \<and> answer (process_query demo_runtime (demo_client (Inr auth_error_response) (Inr done_response)) ''hi'')
     = ''Error from OpenRouter: {'' @ [CHR 0x27] @ ''code'' @ [CHR 0x27] @ '': 401, ''
        @ [CHR 0x27] @ ''message'' @ [CHR 0x27] @ '': ''
        @ [CHR 0x27] @ ''No auth credentials found'' @ [CHR 0x27] @ ''}''
   \<and> answer (process_query demo_runtime (demo_client (Inr empty_choices_response) (Inr done_response)) ''hi'')
     = ''Invalid response received from API''"
proof -
  have i: "initial_response (demo_client (Inr r) (Inr done_response)) ''hi'' = Some r" for r
    by (simp add: initial_response_def demo_client_def demo_session_def)
  have 1: "status_code both_response = 200" "resp_json both_response = Inr (JObj both_body)"
    by (simp_all add: both_response_def)
  have 2: "status_code empty_choices_response = 200"
    "resp_json empty_choices_response = Inr (JObj [(''choices'', JArr [])])"
    by (simp_all add: empty_choices_response_def)
  have 3: "status_code auth_error_response = 200"
    "resp_json auth_error_response = Inr (JObj [(''error'', auth_error)])"
    by (simp_all add: auth_error_response_def)
  have e: "map_of both_body ''error'' = Some (JStr ''boom'')" by (simp add: both_body_def)
  have n: "map_of [(''choices'', JArr [])] ''error'' = None"
    "map_of [(''choices'', JArr [])] ''choices'' = Some (JArr [])" "\<not> truthy (JArr [])"
    by simp_all
  have o: "map_of [(''error'', auth_error)] ''error'' = Some auth_error"
    by simp
  from malformed_response_aborts [OF i 1, of demo_runtime] e
  have a: "answer (process_query demo_runtime (demo_client (Inr both_response) (Inr done_response)) ''hi'')
     = ''Error from OpenRouter: boom''"
    by simp
  from malformed_response_aborts [OF i 3, of demo_runtime] o
  have b: "answer (process_query demo_runtime (demo_client (Inr auth_error_response) (Inr done_response)) ''hi'')
     = ''Error from OpenRouter: '' @ py_str demo_runtime auth_error"
    by blast
  from malformed_response_aborts [OF i 2, of demo_runtime] n
  have c: "answer (process_query demo_runtime (demo_client (Inr empty_choices_response) (Inr done_response)) ''hi'')
     = ''Invalid response received from API''"
    by simp
  show ?thesis using a b c by (simp add: demo_error_strs)
qed

text \<open>
  Claim C5 as stated fails on \<open>verbatim\<close> for an \<open>error\<close> field that is an object, as the
  endpoint sends it: the answer carries the dict display of the decoded value, so the
  text of the field in the response body is not part of it; and where the message holds
  a line break, neither is the message.
\<close>

theorem error_object_is_printed_counterexample:
  "initial_response (demo_client (Inr auth_error_response) (Inr done_response)) ''hi''
     = Some auth_error_response
   \<and> status_code auth_error_response = 200
   \<and> resp_text auth_error_response = ''{\"error\":'' @ auth_error_text @ ''}''
   \<and> resp_json auth_error_response = Inr (JObj [(''error'', auth_error)])
   \<and> answer (process_query demo_runtime (demo_client (Inr auth_error_response) (Inr done_response)) ''hi'')
     = ''Error from OpenRouter: {'' @ [CHR 0x27] @ ''code'' @ [CHR 0x27] @ '': 401, ''
        @ [CHR 0x27] @ ''message'' @ [CHR 0x27] @ '': ''
        @ [CHR 0x27] @ ''No auth credentials found'' @ [CHR 0x27] @ ''}''
   \<and> \<not> sublist auth_error_text
       (answer (process_query demo_runtime (demo_client (Inr auth_error_response) (Inr done_response)) ''hi''))
   \<and> resp_json lines_error_response
     = Inr (JObj [(''error'', JObj [(''message'', JStr (''bad'' @ [CHR 0x0A] @ ''request''))])])
   \<and> answer (process_query demo_runtime (demo_client (Inr lines_error_response) (Inr done_response)) ''hi'')
     = ''Error from OpenRouter: {'' @ [CHR 0x27] @ ''message'' @ [CHR 0x27] @ '': ''
        @ [CHR 0x27] @ ''bad'' @ [CHR 0x5C] @ ''nrequest'' @ [CHR 0x27] @ ''}''
   \<and> \<not> sublist (''bad'' @ [CHR 0x0A] @ ''request'')
       (answer (process_query demo_runtime (demo_client (Inr lines_error_response) (Inr done_response)) ''hi''))
   \<and> \<not> sublist lines_error_text
       (answer (process_query demo_runtime (demo_client (Inr lines_error_response) (Inr done_response)) ''hi''))"
proof -
  have a: "answer (process_query demo_runtime (demo_client (Inr auth_error_response) (Inr done_response)) ''hi'')
     = ''Error from OpenRouter: {'' @ [CHR 0x27] @ ''code'' @ [CHR 0x27] @ '': 401, ''
        @ [CHR 0x27] @ ''message'' @ [CHR 0x27] @ '': ''
        @ [CHR 0x27] @ ''No auth credentials found'' @ [CHR 0x27] @ ''}''"
    by (simp add: process_query_def try_body_def Let_def demo_client_def demo_session_def
        auth_error_response_def first_message_def demo_error_strs)
  have b: "answer (process_query demo_runtime (demo_client (Inr lines_error_response) (Inr done_response)) ''hi'')
     = ''Error from OpenRouter: {'' @ [CHR 0x27] @ ''message'' @ [CHR 0x27] @ '': ''
        @ [CHR 0x27] @ ''bad'' @ [CHR 0x5C] @ ''nrequest'' @ [CHR 0x27] @ ''}''"
    by (simp add: process_query_def try_body_def Let_def demo_client_def demo_session_def
        lines_error_response_def first_message_def demo_error_strs)
  show ?thesis
    unfolding a b
    by (simp add: demo_initial_response auth_error_response_def auth_error_text_def
        lines_error_response_def lines_error_def lines_error_text_def sublist_code)
qed

section \<open>The arguments of a tool call\<close>

text \<open>
  Claim C6. A tool call with its three fields never aborts the loop: the loop goes on
  with the remaining calls. Arguments that are not a string are passed to \<open>call_tool\<close>
  unchanged; a string that \<open>json.loads\<close> decodes is passed decoded; when \<open>json.loads\<close>
  raises, no invocation is made, and the tool message and the output fragment carry the
  text \<open>Error executing tool name: message\<close>.
\<close>

theorem arguments_are_decoded:
  assumes "tool_call_fields tc = Inr (tool_name, tool_args, tool_id)"
  shows "\<exists>st'. process_tool_call R sess http ts tc st = Inr st'
     \<and> process_tool_calls R sess http ts (tc # rest) st = process_tool_calls R sess http ts rest st'
     \<and> ((\<forall>s. tool_args \<noteq> JStr s) \<longrightarrow>
          trace st' = trace st @ [CallTool tool_name tool_args, Post (followup_request (messages st') ts)])
     \<and> (\<forall>s v. tool_args = JStr s \<longrightarrow> json_loads R s = Inr v \<longrightarrow>
          trace st' = trace st @ [CallTool tool_name v, Post (followup_request (messages st') ts)])
     \<and> (\<forall>s e. tool_args = JStr s \<longrightarrow> json_loads R s = Inl e \<longrightarrow>
            trace st' = trace st @ [Post (followup_request (messages st') ts)]
          \<and> messages st' = messages st @
              [assistant_call_message tc,
               tool_message tool_id
                 (PyStr (''Error executing tool '' @ py_str R tool_name @ '': '' @ str_exn R e))]
          \<and> prefix (final_text st @
                [JStr (''[Tool '' @ py_str R tool_name @ '' result: Error executing tool ''
                        @ py_str R tool_name @ '': '' @ str_exn R e @ '']'')])
              (final_text st'))"
proof -
  from process_tool_call_fields [OF assms, of R sess http ts st]
  obtain st' xs where p: "process_tool_call R sess http ts tc st = Inr st'"
    and t: "trace st' = snd (invoke_tool R sess (trace st) tool_name tool_args)
              @ [Post (followup_request (messages st') ts)]"
    and m: "messages st' = messages st @
          [assistant_call_message tc,
           tool_message tool_id (fst (invoke_tool R sess (trace st) tool_name tool_args))]"
    and f: "final_text st' = final_text st @
          JStr (tool_fragment R tool_name (fst (invoke_tool R sess (trace st) tool_name tool_args))) # xs"
    by blast
  have 1: "process_tool_calls R sess http ts (tc # rest) st = process_tool_calls R sess http ts rest st'"
    using p by simp
  have 2: "trace st' = trace st @ [CallTool tool_name tool_args, Post (followup_request (messages st') ts)]"
    if "\<forall>s. tool_args \<noteq> JStr s"
    using that t by (cases tool_args) (simp_all add: invoke_tool_trace parse_args_def)
  have 3: "trace st' = trace st @ [CallTool tool_name v, Post (followup_request (messages st') ts)]"
    if "tool_args = JStr s" "json_loads R s = Inr v" for s v
    using that t by (simp add: invoke_tool_trace parse_args_def)
  have 4: "trace st' = trace st @ [Post (followup_request (messages st') ts)]
          \<and> messages st' = messages st @
              [assistant_call_message tc,
               tool_message tool_id
                 (PyStr (''Error executing tool '' @ py_str R tool_name @ '': '' @ str_exn R e))]
          \<and> prefix (final_text st @
                [JStr (''[Tool '' @ py_str R tool_name @ '' result: Error executing tool ''
                        @ py_str R tool_name @ '': '' @ str_exn R e @ '']'')])
              (final_text st')"
    if "tool_args = JStr s" "json_loads R s = Inl e" for s e
    using that t m f
    by (simp add: invoke_tool_trace invoke_tool_result parse_args_def error_executing_def
        tool_fragment_def prefix_def)
  show ?thesis using p 1 2 3 4 by blast
qed

text \<open>The theorem at a concrete run.\<close>

theorem arguments_are_decoded_witness:
  "(\<exists>st'. process_tool_call demo_runtime demo_session
            (http_client (demo_client (Inr batch_response) (Inr done_response))) [] call_1
            \<lparr>messages = [], final_text = [], trace = []\<rparr> = Inr st'
        \<and> trace st' = [CallTool (JStr ''add'') (JObj [(''x'', JInt 1)]),
                        Post (followup_request (messages st') [])])
   \<and> (\<exists>st'. process_tool_call demo_runtime demo_session
            (http_client (demo_client (Inr batch_response) (Inr done_response))) [] bad_call
            \<lparr>messages = [], final_text = [], trace = []\<rparr> = Inr st'
        \<and> trace st' = [Post (followup_request (messages st') [])]
        \<and> messages st' =
            [assistant_call_message bad_call,
             tool_message (JStr ''call_1'')
               (PyStr ''Error executing tool add: Expecting value: line 1 column 1 (char 0)'')])"
proof -
  have l: "json_loads demo_runtime ''{\"x\":1}'' = Inr (JObj [(''x'', JInt 1)])"
    "json_loads demo_runtime ''not json'' = Inl (Exception ''Expecting value: line 1 column 1 (char 0)'')"
    by (simp_all add: demo_runtime_def)
  show ?thesis
    using arguments_are_decoded [OF call_fields(1), of demo_runtime demo_session
        "http_client (demo_client (Inr batch_response) (Inr done_response))" "[]"
        "\<lparr>messages = [], final_text = [], trace = []\<rparr>" "[]"]
      arguments_are_decoded [OF call_fields(4), of demo_runtime demo_session
        "http_client (demo_client (Inr batch_response) (Inr done_response))" "[]"
        "\<lparr>messages = [], final_text = [], trace = []\<rparr>" "[]"] l
    by auto
qed

section \<open>A failing follow-up call\<close>

text \<open>
  Claim C7. When the follow-up call for a tool call raises, returns a status other than
  200 (which line 192 turns into the exception \<open>API error: body\<close>), or its response makes
  the handling code raise, the fragment \<open>Error in follow-up request: message\<close> is appended
  to the output and the loop goes on with the remaining tool calls.
\<close>

theorem follow_up_failure_is_contained:
  assumes "run_tool_call R sess tc st = Inr st1"
    and "post http (trace st1) (followup_request (messages st1) ts) = Inl e
       \<or> (\<exists>r. post http (trace st1) (followup_request (messages st1) ts) = Inr r
              \<and> status_code r \<noteq> 200 \<and> e = Exception (''API error: '' @ resp_text r))
       \<or> (\<exists>r. post http (trace st1) (followup_request (messages st1) ts) = Inr r
              \<and> follow_up_content r = Inl e)"
  shows "process_tool_calls R sess http ts (tc # rest) st =
           process_tool_calls R sess http ts rest
             (st1\<lparr>final_text := final_text st1 @ [JStr (''Error in follow-up request: '' @ str_exn R e)],
                  trace := trace st1 @ [Post (followup_request (messages st1) ts)]\<rparr>)"
proof -
  have "post http (trace st1) (followup_request (messages st1) ts) = Inl e
     \<or> (\<exists>r. post http (trace st1) (followup_request (messages st1) ts) = Inr r
            \<and> follow_up_content r = Inl e)"
    using assms(2) by (auto simp: follow_up_content_def)
  then have "follow_up R http ts st1 =
           st1\<lparr>final_text := final_text st1 @ [JStr (''Error in follow-up request: '' @ str_exn R e)],
               trace := trace st1 @ [Post (followup_request (messages st1) ts)]\<rparr>"
    by (rule follow_up_raise)
  then show ?thesis using assms(1) by (simp add: process_tool_call_def)
qed

text \<open>The theorem at a concrete run.\<close>

theorem follow_up_failure_is_contained_witness:
  "process_tool_calls demo_runtime demo_session
      (http_client (demo_client (Inr batch_response) (Inl (Exception ''timed out'')))) []
      [call_3] \<lparr>messages = [], final_text = [], trace = []\<rparr>
     = Inr \<lparr>messages = [assistant_call_message call_3, tool_message (JStr ''call_3'') (PyContent ''4'')],
            final_text = [JStr ''[Tool add result: 4]'', JStr ''Error in follow-up request: timed out''],
            trace = [CallTool (JStr ''add'') (JObj [(''x'', JInt 2)]),
                     Post (followup_request
                       [assistant_call_message call_3,
                        tool_message (JStr ''call_3'') (PyContent ''4'')] [])]\<rparr>
   \<and> process_tool_calls demo_runtime demo_session
      (http_client (demo_client (Inr batch_response) (Inr failed_response))) []
      [call_3] \<lparr>messages = [], final_text = [], trace = []\<rparr>
     = Inr \<lparr>messages = [assistant_call_message call_3, tool_message (JStr ''call_3'') (PyContent ''4'')],
            final_text = [JStr ''[Tool add result: 4]'',
                          JStr ''Error in follow-up request: API error: boom''],
            trace = [CallTool (JStr ''add'') (JObj [(''x'', JInt 2)]),
                     Post (followup_request
                       [assistant_call_message call_3,
                        tool_message (JStr ''call_3'') (PyContent ''4'')] [])]\<rparr>"
proof -
  let ?st1 = "\<lparr>messages = [assistant_call_message call_3, tool_message (JStr ''call_3'') (PyContent ''4'')],
            final_text = [JStr ''[Tool add result: 4]''],
            trace = [CallTool (JStr ''add'') (JObj [(''x'', JInt 2)])]\<rparr> :: string state"
  let ?H = "\<lambda>next. http_client (demo_client (Inr batch_response) next)"
  have a: "post (?H (Inl (Exception ''timed out''))) (trace ?st1) (followup_request (messages ?st1) [])
       = Inl (Exception ''timed out'')
     \<or> (\<exists>r. post (?H (Inl (Exception ''timed out''))) (trace ?st1) (followup_request (messages ?st1) [])
              = Inr r
            \<and> status_code r \<noteq> 200 \<and> Exception ''timed out'' = Exception (''API error: '' @ resp_text r))
     \<or> (\<exists>r. post (?H (Inl (Exception ''timed out''))) (trace ?st1) (followup_request (messages ?st1) [])
              = Inr r
            \<and> follow_up_content r = Inl (Exception ''timed out''))"
    by (simp add: demo_follow_up_post)
  have b: "post (?H (Inr failed_response)) (trace ?st1) (followup_request (messages ?st1) [])
       = Inl (Exception ''API error: boom'')
     \<or> (\<exists>r. post (?H (Inr failed_response)) (trace ?st1) (followup_request (messages ?st1) [])
              = Inr r
            \<and> status_code r \<noteq> 200 \<and> Exception ''API error: boom'' = Exception (''API error: '' @ resp_text r))
     \<or> (\<exists>r. post (?H (Inr failed_response)) (trace ?st1) (followup_request (messages ?st1) [])
              = Inr r
            \<and> follow_up_content r = Inl (Exception ''API error: boom''))"
    by (simp add: demo_follow_up_post failed_response_def)
  show ?thesis
    using follow_up_failure_is_contained [OF demo_run_tool_call a, of "[]"]
      follow_up_failure_is_contained [OF demo_run_tool_call b, of "[]"]
    by simp
qed

section \<open>Tool messages answer the call before them\<close>

text \<open>
  Claim C8. In the history of every run of \<open>process_query\<close>, every message with role
  \<open>tool\<close> comes right after an assistant message, and its \<open>tool_call_id\<close> is the \<open>id\<close> of
  a tool call in that message's \<open>tool_calls\<close>.
\<close>

theorem tool_messages_are_linked:
  "linked None (history (process_query R client query))"
proof (cases "session client")
  case None
  then show ?thesis by (simp add: process_query_def)
next
  case (Some sess)
  show ?thesis
  proof (cases "try_body R sess (http_client client) query")
    case (Inl x)
    obtain e st where "x = (e, st)" by (cases x)
    with Inl Some try_body_linked [of R sess "http_client client" query e st]
    show ?thesis by (simp add: process_query_def)
  next
    case (Inr y)
    obtain s st where "y = (s, st)" by (cases y)
    with Inr Some try_body_linked [of R sess "http_client client" query _ st s]
    show ?thesis by (simp add: process_query_def)
  qed
qed

text \<open>The theorem at a concrete run.\<close>

theorem tool_messages_are_linked_witness:
  "linked None
     (history (process_query demo_runtime (demo_client (Inr batch_response) (Inr done_response)) ''q''))
   \<and> map role
       (history (process_query demo_runtime (demo_client (Inr batch_response) (Inr done_response)) ''q''))
     = [''user'', ''assistant'', ''tool'', ''assistant'', ''tool'', ''assistant'', ''tool'']
   \<and> map tool_call_id
       (history (process_query demo_runtime (demo_client (Inr batch_response) (Inr done_response)) ''q''))
     = [None, None, Some (JStr ''call_1''), None, Some (JStr ''call_2''), None, Some (JStr ''call_3'')]"
proof -
  have "history (process_query demo_runtime (demo_client (Inr batch_response) (Inr done_response)) ''q'')
     = [user_message ''q'',
        assistant_call_message call_1, tool_message (JStr ''call_1'') (PyContent ''4''),
        assistant_call_message call_2,
        tool_message (JStr ''call_2'') (PyStr ''Error executing tool mul: Unknown tool''),
        assistant_call_message call_3, tool_message (JStr ''call_3'') (PyContent ''4'')]"
    by (simp add: process_query_def try_body_def Let_def demo_client_def demo_session_def
        batch_response_facts handle_message_def process_tool_call_def
        run_tool_call_def call_fields invoke_tool_def demo_parse_args follow_up_def
        follow_up_content_def done_response_def join_fragments_def error_executing_def
        tool_fragment_def demo_runtime_fields)
  then show ?thesis
    using tool_messages_are_linked [of demo_runtime "demo_client (Inr batch_response) (Inr done_response)" "''q''"]
    by (simp add: user_message_def assistant_call_message_def tool_message_def)
qed

section \<open>Failures are returned as text\<close>




section \<open>A follow-up response without a choice\<close>

text \<open>
  Claim C10. When the follow-up call for a tool call returns status 200 and a body that is
  an object whose \<open>choices\<close> is absent or empty, whether or not the body has an \<open>error\<close>
  field, nothing is appended to the output for that follow-up and the loop goes on with
  the remaining tool calls.
\<close>

theorem malformed_follow_up_is_silent:
  assumes "run_tool_call R sess tc st = Inr st1"
    and "post http (trace st1) (followup_request (messages st1) ts) = Inr r"
    and "status_code r = 200" and "resp_json r = Inr (JObj body)"
    and "map_of body ''choices'' = None \<or> (\<exists>v. map_of body ''choices'' = Some v \<and> \<not> truthy v)"
  shows "process_tool_calls R sess http ts (tc # rest) st =
           process_tool_calls R sess http ts rest
             (st1\<lparr>trace := trace st1 @ [Post (followup_request (messages st1) ts)]\<rparr>)"
proof -
  have "follow_up_content r = Inr None"
    using assms(3-5) by (rule follow_up_content_silent)
  then have "follow_up R http ts st1 = st1\<lparr>trace := trace st1 @ [Post (followup_request (messages st1) ts)]\<rparr>"
    using assms(2) by (simp add: follow_up_def Let_def)
  then show ?thesis using assms(1) by (simp add: process_tool_call_def)
qed

text \<open>The theorem at a concrete run.\<close>

theorem malformed_follow_up_is_silent_witness:
  "process_tool_calls demo_runtime demo_session
      (http_client (demo_client (Inr batch_response) (Inr empty_choices_response))) []
      [call_3] \<lparr>messages = [], final_text = [], trace = []\<rparr>
     = Inr \<lparr>messages = [assistant_call_message call_3, tool_message (JStr ''call_3'') (PyContent ''4'')],
            final_text = [JStr ''[Tool add result: 4]''],
            trace = [CallTool (JStr ''add'') (JObj [(''x'', JInt 2)]),
                     Post (followup_request
                       [assistant_call_message call_3,
                        tool_message (JStr ''call_3'') (PyContent ''4'')] [])]\<rparr>"
proof -
  let ?st1 = "\<lparr>messages = [assistant_call_message call_3, tool_message (JStr ''call_3'') (PyContent ''4'')],
            final_text = [JStr ''[Tool add result: 4]''],
            trace = [CallTool (JStr ''add'') (JObj [(''x'', JInt 2)])]\<rparr> :: string state"
  let ?H = "http_client (demo_client (Inr batch_response) (Inr empty_choices_response))"
  have p: "post ?H (trace ?st1) (followup_request (messages ?st1) []) = Inr empty_choices_response"
    by (simp add: demo_follow_up_post)
  have s: "status_code empty_choices_response = 200"
    "resp_json empty_choices_response = Inr (JObj [(''choices'', JArr [])])"
    by (simp_all add: empty_choices_response_def)
  have c: "map_of [(''choices'', JArr [])] ''choices'' = None
     \<or> (\<exists>v. map_of [(''choices'', JArr [])] ''choices'' = Some v \<and> \<not> truthy v)"
    by simp
  show ?thesis
    using malformed_follow_up_is_silent [OF demo_run_tool_call p s c, of "[]"]
    by simp
qed

end
